theory Spec2Isabelle
  imports Main "HOL-Library.Word"
begin

unbundle bit_operations_syntax

section \<open>Data model (struct Cpu::PImpl, cpu.cpp lines 11-121)\<close>

text \<open>
  The core talks to the outside world through three callbacks only. The world behind
  the callbacks is a value of type \<open>'h\<close> that the callbacks may read and replace
  (a memory-mapped peripheral changes state when it is read). The callbacks do not see
  or change the registers of the core. Every callback made is appended to \<open>trace\<close>, a
  ghost field that the code does not have and that no transition reads.
\<close>

datatype event =
    EvRead "32 word" "8 word"
  | EvWrite "32 word" "8 word"
  | EvIdle bool

record 'h cpu =
  m_readHandler :: "32 word \<Rightarrow> 'h \<Rightarrow> 8 word \<times> 'h"
  m_writeHandler :: "32 word \<Rightarrow> 8 word \<Rightarrow> 'h \<Rightarrow> 'h"
  m_idleHandler :: "bool \<Rightarrow> 'h \<Rightarrow> 'h"
  m_a :: "16 word"
  m_x :: "16 word"
  m_y :: "16 word"
  m_sp :: "16 word"
  m_pc :: "16 word"
  m_dp :: "16 word"
  m_k :: "8 word"
  m_db :: "8 word"
  m_c :: bool
  m_z :: bool
  m_v :: bool
  m_n :: bool
  m_i :: bool
  m_d :: bool
  m_xf :: bool
  m_mf :: bool
  m_e :: bool
  m_waiting :: bool
  m_stopped :: bool
  m_irqWanted :: bool
  m_nmiWanted :: bool
  m_intWanted :: bool
  m_resetWanted :: bool
  host :: 'h
  trace :: "event list"

text \<open>A C++ \<open>bool\<close> used as an integer operand is 0 or 1.\<close>

definition b2w :: "bool \<Rightarrow> 'a::len word" where
  "b2w b = (if b then 1 else 0)"

section \<open>Bus helpers (cpu.cpp lines 233-236)\<close>

definition Read :: "32 word \<Rightarrow> 'h cpu \<Rightarrow> 8 word \<times> 'h cpu" where
  "Read address s =
     (let (v, h) = m_readHandler s address (host s)
      in (v, s\<lparr>host := h, trace := trace s @ [EvRead address v]\<rparr>))"

definition Write :: "32 word \<Rightarrow> 8 word \<Rightarrow> 'h cpu \<Rightarrow> 'h cpu" where
  "Write address val s =
     s\<lparr>host := m_writeHandler s address val (host s),
       trace := trace s @ [EvWrite address val]\<rparr>"

definition Idle :: "'h cpu \<Rightarrow> 'h cpu" where
  "Idle s = s\<lparr>host := m_idleHandler s False (host s), trace := trace s @ [EvIdle False]\<rparr>"

definition IdleWait :: "'h cpu \<Rightarrow> 'h cpu" where
  "IdleWait s = s\<lparr>host := m_idleHandler s True (host s), trace := trace s @ [EvIdle True]\<rparr>"

section \<open>Interrupt poll and opcode fetch (cpu.cpp lines 238-247)\<close>

definition CheckInterrupts :: "'h cpu \<Rightarrow> 'h cpu" where
  "CheckInterrupts s = s\<lparr>m_intWanted := (m_nmiWanted s \<or> (m_irqWanted s \<and> \<not> m_i s))\<rparr>"

text \<open>The program address \<open>(m_k << 16) | m_pc\<close>.\<close>

definition pcAddr :: "'h cpu \<Rightarrow> 32 word" where
  "pcAddr s = push_bit 16 (ucast (m_k s)) OR ucast (m_pc s)"

definition ReadOpcode :: "'h cpu \<Rightarrow> 8 word \<times> 'h cpu" where
  "ReadOpcode s = Read (pcAddr s) (s\<lparr>m_pc := m_pc s + 1\<rparr>)"

definition ReadOpcodeWord :: "bool \<Rightarrow> 'h cpu \<Rightarrow> 16 word \<times> 'h cpu" where
  "ReadOpcodeWord intCheck s =
     (let (low, s1) = ReadOpcode s;
          s2 = (if intCheck then CheckInterrupts s1 else s1);
          (high, s3) = ReadOpcode s2
      in (ucast low OR push_bit 8 (ucast high), s3))"

section \<open>Flag byte (cpu.cpp lines 249-297)\<close>

definition GetFlags :: "'h cpu \<Rightarrow> 8 word" where
  "GetFlags s =
     (if m_n s then 0x80 else 0) OR (if m_v s then 0x40 else 0) OR
     (if m_mf s then 0x20 else 0) OR (if m_xf s then 0x10 else 0) OR
     (if m_d s then 0x08 else 0) OR (if m_i s then 0x04 else 0) OR
     (if m_z s then 0x02 else 0) OR (if m_c s then 0x01 else 0)"

definition SetFlags :: "8 word \<Rightarrow> 'h cpu \<Rightarrow> 'h cpu" where
  "SetFlags val s =
     (let s1 = s\<lparr>m_n := (val AND 0x80 \<noteq> 0), m_v := (val AND 0x40 \<noteq> 0),
                 m_d := (val AND 0x08 \<noteq> 0), m_i := (val AND 0x04 \<noteq> 0),
                 m_z := (val AND 0x02 \<noteq> 0), m_c := (val AND 0x01 \<noteq> 0)\<rparr>;
          s2 = (if \<not> m_e s1
                then s1\<lparr>m_mf := (val AND 0x20 \<noteq> 0), m_xf := (val AND 0x10 \<noteq> 0)\<rparr>
                else s1\<lparr>m_mf := True, m_xf := True\<rparr>)
      in if m_xf s2 then s2\<lparr>m_x := m_x s2 AND 0xff, m_y := m_y s2 AND 0xff\<rparr> else s2)"

definition SetZnFlags :: "16 word \<Rightarrow> bool \<Rightarrow> 'h cpu \<Rightarrow> 'h cpu" where
  "SetZnFlags val isByte s =
     (if isByte
      then s\<lparr>m_z := (val AND 0xff = 0), m_n := (val AND 0x80 \<noteq> 0)\<rparr>
      else s\<lparr>m_z := (val = 0), m_n := (val AND 0x8000 \<noteq> 0)\<rparr>)"

section \<open>Stack helpers (cpu.cpp lines 299-325)\<close>

definition PushByte :: "8 word \<Rightarrow> 'h cpu \<Rightarrow> 'h cpu" where
  "PushByte val s =
     (let s1 = Write (ucast (m_sp s)) val s;
          s2 = s1\<lparr>m_sp := m_sp s1 - 1\<rparr>
      in if m_e s2 then s2\<lparr>m_sp := (m_sp s2 AND 0xff) OR 0x100\<rparr> else s2)"

definition PullByte :: "'h cpu \<Rightarrow> 8 word \<times> 'h cpu" where
  "PullByte s =
     (let s1 = s\<lparr>m_sp := m_sp s + 1\<rparr>;
          s2 = (if m_e s1 then s1\<lparr>m_sp := (m_sp s1 AND 0xff) OR 0x100\<rparr> else s1)
      in Read (ucast (m_sp s2)) s2)"

definition PushWord :: "16 word \<Rightarrow> bool \<Rightarrow> 'h cpu \<Rightarrow> 'h cpu" where
  "PushWord val intCheck s =
     (let s1 = PushByte (ucast (drop_bit 8 val)) s;
          s2 = (if intCheck then CheckInterrupts s1 else s1)
      in PushByte (ucast (val AND 0xff)) s2)"

definition PullWord :: "bool \<Rightarrow> 'h cpu \<Rightarrow> 16 word \<times> 'h cpu" where
  "PullWord intCheck s =
     (let (low, s1) = PullByte s;
          s2 = (if intCheck then CheckInterrupts s1 else s1);
          (high, s3) = PullByte s2
      in (ucast low OR push_bit 8 (ucast high), s3))"

section \<open>Word access and branches (cpu.cpp lines 327-364)\<close>

definition ReadWord :: "32 word \<Rightarrow> 32 word \<Rightarrow> bool \<Rightarrow> 'h cpu \<Rightarrow> 16 word \<times> 'h cpu" where
  "ReadWord adrL adrH intCheck s =
     (let (low, s1) = Read adrL s;
          s2 = (if intCheck then CheckInterrupts s1 else s1);
          (high, s3) = Read adrH s2
      in (ucast low OR push_bit 8 (ucast high), s3))"

definition WriteWord ::
  "32 word \<Rightarrow> 32 word \<Rightarrow> 16 word \<Rightarrow> bool \<Rightarrow> bool \<Rightarrow> 'h cpu \<Rightarrow> 'h cpu" where
  "WriteWord adrL adrH val reversed intCheck s =
     (if reversed
      then (let s1 = Write adrH (ucast (drop_bit 8 val)) s;
                s2 = (if intCheck then CheckInterrupts s1 else s1)
            in Write adrL (ucast (val AND 0xff)) s2)
      else (let s1 = Write adrL (ucast (val AND 0xff)) s;
                s2 = (if intCheck then CheckInterrupts s1 else s1)
            in Write adrH (ucast (drop_bit 8 val)) s2))"

text \<open>\<open>m_pc += static_cast<int8_t>(value)\<close>: the displacement is sign-extended.\<close>

definition DoBranch :: "bool \<Rightarrow> 'h cpu \<Rightarrow> 'h cpu" where
  "DoBranch condition s =
     (let s1 = (if \<not> condition then CheckInterrupts s else s);
          (val, s2) = ReadOpcode s1
      in if condition
         then (let s3 = Idle (CheckInterrupts s2) in s3\<lparr>m_pc := m_pc s3 + scast val\<rparr>)
         else s2)"

section \<open>Interrupt service (cpu.cpp lines 366-396)\<close>

definition DoInterrupt :: "'h cpu \<Rightarrow> 'h cpu" where
  "DoInterrupt s =
     (let s1 = Idle s;
          s2 = (if \<not> m_e s1 then PushByte (m_k s1) s1 else s1);
          s3 = PushWord (m_pc s2) False s2;
          flags = GetFlags s3 AND 0xEF;
          s4 = PushByte flags s3;
          s5 = s4\<lparr>m_i := True, m_d := False, m_k := 0, m_intWanted := False\<rparr>;
          vectorL = (if m_e s5 then (if m_nmiWanted s5 then 0xfffa else 0xfffe)
                     else (if m_nmiWanted s5 then 0xffea else 0xffee));
          vectorH = (if m_e s5 then (if m_nmiWanted s5 then 0xfffb else 0xffff)
                     else (if m_nmiWanted s5 then 0xffeb else 0xffef));
          s6 = s5\<lparr>m_nmiWanted := False\<rparr>;
          (w, s7) = ReadWord vectorL vectorH False s6
      in s7\<lparr>m_pc := w\<rparr>)"

section \<open>Addressing modes (cpu.cpp lines 398-414)\<close>

text \<open>
  Each mode returns the pair \<open>(low, high)\<close> of bus addresses. The operands are
  \<open>uint8_t\<close> and \<open>uint16_t\<close> values promoted to \<open>int\<close>, so the sums are formed
  on 32 bits and masked as the source masks them.
\<close>

type_synonym adr_pair = "32 word \<times> 32 word"

definition AdrImp :: "'h cpu \<Rightarrow> 'h cpu" where
  "AdrImp s =
     (let s1 = CheckInterrupts s
      in if m_intWanted s1 then snd (Read (pcAddr s1) s1) else Idle s1)"

definition AdrImm :: "bool \<Rightarrow> 'h cpu \<Rightarrow> adr_pair \<times> 'h cpu" where
  "AdrImm xFlag s =
     (let is8bit = ((xFlag \<and> m_xf s) \<or> (\<not> xFlag \<and> m_mf s));
          low = pcAddr s;
          s1 = s\<lparr>m_pc := m_pc s + 1\<rparr>
      in if \<not> is8bit then ((low, pcAddr s1), s1\<lparr>m_pc := m_pc s1 + 1\<rparr>)
         else ((low, 0), s1))"

definition dpIdle :: "'h cpu \<Rightarrow> 'h cpu" where
  "dpIdle s = (if m_dp s AND 0xff \<noteq> 0 then Idle s else s)"

definition AdrDp :: "'h cpu \<Rightarrow> adr_pair \<times> 'h cpu" where
  "AdrDp s =
     (let (adr, s1) = ReadOpcode s;
          s2 = dpIdle s1;
          low = (ucast (m_dp s2) + ucast adr) AND 0xffff
      in ((low, (low + 1) AND 0xffff), s2))"

definition AdrDpx :: "'h cpu \<Rightarrow> adr_pair \<times> 'h cpu" where
  "AdrDpx s =
     (let (adr, s1) = ReadOpcode s;
          s2 = Idle (dpIdle s1);
          low = (ucast (m_dp s2) + ucast adr + ucast (m_x s2)) AND 0xffff
      in ((low, (low + 1) AND 0xffff), s2))"

definition AdrDpy :: "'h cpu \<Rightarrow> adr_pair \<times> 'h cpu" where
  "AdrDpy s =
     (let (adr, s1) = ReadOpcode s;
          s2 = Idle (dpIdle s1);
          low = (ucast (m_dp s2) + ucast adr + ucast (m_y s2)) AND 0xffff
      in ((low, (low + 1) AND 0xffff), s2))"

definition AdrIdp :: "'h cpu \<Rightarrow> adr_pair \<times> 'h cpu" where
  "AdrIdp s =
     (let (adr, s1) = ReadOpcode s;
          s2 = dpIdle s1;
          (pointer, s3) = ReadWord ((ucast (m_dp s2) + ucast adr) AND 0xffff)
                                   ((ucast (m_dp s2) + ucast adr + 1) AND 0xffff) False s2;
          low = push_bit 16 (ucast (m_db s3)) + ucast pointer
      in ((low, (low + 1) AND 0xffffff), s3))"

definition AdrIdx :: "'h cpu \<Rightarrow> adr_pair \<times> 'h cpu" where
  "AdrIdx s =
     (let (adr, s1) = ReadOpcode s;
          s2 = Idle (dpIdle s1);
          (pointer, s3) =
             ReadWord ((ucast (m_dp s2) + ucast adr + ucast (m_x s2)) AND 0xffff)
                      ((ucast (m_dp s2) + ucast adr + ucast (m_x s2) + 1) AND 0xffff) False s2;
          low = push_bit 16 (ucast (m_db s3)) + ucast pointer
      in ((low, (low + 1) AND 0xffffff), s3))"

text \<open>
  The page-cross test \<open>(pointer >> 8) != ((pointer + m_y) >> 8)\<close> is evaluated on
  \<open>int\<close>: the sum is not truncated to 16 bits before the shift.
\<close>

definition pageCross :: "16 word \<Rightarrow> 16 word \<Rightarrow> bool" where
  "pageCross adr idx =
     (drop_bit 8 (ucast adr :: 32 word) \<noteq> drop_bit 8 (ucast adr + ucast idx :: 32 word))"

definition AdrIdy :: "bool \<Rightarrow> 'h cpu \<Rightarrow> adr_pair \<times> 'h cpu" where
  "AdrIdy write s =
     (let (adr, s1) = ReadOpcode s;
          s2 = dpIdle s1;
          (pointer, s3) = ReadWord ((ucast (m_dp s2) + ucast adr) AND 0xffff)
                                   ((ucast (m_dp s2) + ucast adr + 1) AND 0xffff) False s2;
          s4 = (if write \<or> \<not> m_xf s3 \<or> pageCross pointer (m_y s3) then Idle s3 else s3);
          low = (push_bit 16 (ucast (m_db s4)) + ucast pointer + ucast (m_y s4)) AND 0xffffff
      in ((low, (low + 1) AND 0xffffff), s4))"

definition AdrIdl :: "'h cpu \<Rightarrow> adr_pair \<times> 'h cpu" where
  "AdrIdl s =
     (let (adr, s1) = ReadOpcode s;
          s2 = dpIdle s1;
          (p, s3) = ReadWord ((ucast (m_dp s2) + ucast adr) AND 0xffff)
                             ((ucast (m_dp s2) + ucast adr + 1) AND 0xffff) False s2;
          (b, s4) = Read ((ucast (m_dp s3) + ucast adr + 2) AND 0xffff) s3;
          pointer = ucast p OR push_bit 16 (ucast b)
      in ((pointer, (pointer + 1) AND 0xffffff), s4))"

definition AdrIly :: "'h cpu \<Rightarrow> adr_pair \<times> 'h cpu" where
  "AdrIly s =
     (let (adr, s1) = ReadOpcode s;
          s2 = dpIdle s1;
          (p, s3) = ReadWord ((ucast (m_dp s2) + ucast adr) AND 0xffff)
                             ((ucast (m_dp s2) + ucast adr + 1) AND 0xffff) False s2;
          (b, s4) = Read ((ucast (m_dp s3) + ucast adr + 2) AND 0xffff) s3;
          pointer = ucast p OR push_bit 16 (ucast b);
          low = (pointer + ucast (m_y s4)) AND 0xffffff
      in ((low, (low + 1) AND 0xffffff), s4))"

definition AdrSr :: "'h cpu \<Rightarrow> adr_pair \<times> 'h cpu" where
  "AdrSr s =
     (let (adr, s1) = ReadOpcode s;
          s2 = Idle s1;
          low = (ucast (m_sp s2) + ucast adr) AND 0xffff
      in ((low, (low + 1) AND 0xffff), s2))"

definition AdrIsy :: "'h cpu \<Rightarrow> adr_pair \<times> 'h cpu" where
  "AdrIsy s =
     (let (adr, s1) = ReadOpcode s;
          s2 = Idle s1;
          (pointer, s3) = ReadWord ((ucast (m_sp s2) + ucast adr) AND 0xffff)
                                   ((ucast (m_sp s2) + ucast adr + 1) AND 0xffff) False s2;
          s4 = Idle s3;
          low = (push_bit 16 (ucast (m_db s4)) + ucast pointer + ucast (m_y s4)) AND 0xffffff
      in ((low, (low + 1) AND 0xffffff), s4))"

definition AdrAbs :: "'h cpu \<Rightarrow> adr_pair \<times> 'h cpu" where
  "AdrAbs s =
     (let (adr, s1) = ReadOpcodeWord False s;
          low = push_bit 16 (ucast (m_db s1)) + ucast adr
      in ((low, (low + 1) AND 0xffffff), s1))"

definition AdrAbx :: "bool \<Rightarrow> 'h cpu \<Rightarrow> adr_pair \<times> 'h cpu" where
  "AdrAbx write s =
     (let (adr, s1) = ReadOpcodeWord False s;
          s2 = (if write \<or> \<not> m_xf s1 \<or> pageCross adr (m_x s1) then Idle s1 else s1);
          low = (push_bit 16 (ucast (m_db s2)) + ucast adr + ucast (m_x s2)) AND 0xffffff
      in ((low, (low + 1) AND 0xffffff), s2))"

definition AdrAby :: "bool \<Rightarrow> 'h cpu \<Rightarrow> adr_pair \<times> 'h cpu" where
  "AdrAby write s =
     (let (adr, s1) = ReadOpcodeWord False s;
          s2 = (if write \<or> \<not> m_xf s1 \<or> pageCross adr (m_y s1) then Idle s1 else s1);
          low = (push_bit 16 (ucast (m_db s2)) + ucast adr + ucast (m_y s2)) AND 0xffffff
      in ((low, (low + 1) AND 0xffffff), s2))"

definition AdrAbl :: "'h cpu \<Rightarrow> adr_pair \<times> 'h cpu" where
  "AdrAbl s =
     (let (a, s1) = ReadOpcodeWord False s;
          (b, s2) = ReadOpcode s1;
          adr = ucast a OR push_bit 16 (ucast b)
      in ((adr, (adr + 1) AND 0xffffff), s2))"

definition AdrAlx :: "'h cpu \<Rightarrow> adr_pair \<times> 'h cpu" where
  "AdrAlx s =
     (let (a, s1) = ReadOpcodeWord False s;
          (b, s2) = ReadOpcode s1;
          adr = ucast a OR push_bit 16 (ucast b);
          low = (adr + ucast (m_x s2)) AND 0xffffff
      in ((low, (low + 1) AND 0xffffff), s2))"

section \<open>ALU and memory primitives (cpu.cpp lines 416-439)\<close>

text \<open>
  C++ evaluates the operands in \<open>int\<close> and truncates on assignment. Addition,
  subtraction, the bitwise operations and left shifts commute with truncation, so an
  expression built from those alone is computed at the width of the variable it is
  assigned to (\<open>uint16_t result\<close> as a 16-bit word, \<open>uint32_t result\<close> as a 32-bit
  word). A negative \<open>int\<close> assigned to an unsigned variable wraps, as word subtraction
  does.
\<close>

definition And :: "32 word \<Rightarrow> 32 word \<Rightarrow> 'h cpu \<Rightarrow> 'h cpu" where
  "And low high s =
     (let s' = (if m_mf s
                then (let (val, s2) = Read low (CheckInterrupts s)
                      in s2\<lparr>m_a := (m_a s2 AND 0xff00) OR ((m_a s2 AND ucast val) AND 0xff)\<rparr>)
                else (let (val, s1) = ReadWord low high True s
                      in s1\<lparr>m_a := m_a s1 AND val\<rparr>))
      in SetZnFlags (m_a s') (m_mf s') s')"

definition Ora :: "32 word \<Rightarrow> 32 word \<Rightarrow> 'h cpu \<Rightarrow> 'h cpu" where
  "Ora low high s =
     (let s' = (if m_mf s
                then (let (val, s2) = Read low (CheckInterrupts s)
                      in s2\<lparr>m_a := (m_a s2 AND 0xff00) OR ((m_a s2 OR ucast val) AND 0xff)\<rparr>)
                else (let (val, s1) = ReadWord low high True s
                      in s1\<lparr>m_a := m_a s1 OR val\<rparr>))
      in SetZnFlags (m_a s') (m_mf s') s')"

definition Eor :: "32 word \<Rightarrow> 32 word \<Rightarrow> 'h cpu \<Rightarrow> 'h cpu" where
  "Eor low high s =
     (let s' = (if m_mf s
                then (let (val, s2) = Read low (CheckInterrupts s)
                      in s2\<lparr>m_a := (m_a s2 AND 0xff00) OR ((m_a s2 XOR ucast val) AND 0xff)\<rparr>)
                else (let (val, s1) = ReadWord low high True s
                      in s1\<lparr>m_a := m_a s1 XOR val\<rparr>))
      in SetZnFlags (m_a s') (m_mf s') s')"

text \<open>
  The arithmetic of \<open>Adc\<close> on an 8-bit accumulator: from \<open>m_a\<close>, the operand, \<open>m_c\<close>
  and \<open>m_d\<close> to the new \<open>(m_a, m_v, m_c)\<close>. \<open>result\<close> is a \<open>uint16_t\<close>.
\<close>

definition adc8 :: "16 word \<Rightarrow> 8 word \<Rightarrow> bool \<Rightarrow> bool \<Rightarrow> 16 word \<times> bool \<times> bool" where
  "adc8 a val c d =
     (let v = (ucast val :: 16 word);
          result =
            (if d
             then (let r0 = (a AND 0xf) + (v AND 0xf) + b2w c;
                       r1 = (if r0 > 0x9 then ((r0 + 0x6) AND 0xf) + 0x10 else r0)
                   in (a AND 0xf0) + (v AND 0xf0) + r1)
             else (a AND 0xff) + v + b2w c);
          ov = (\<not> ((a XOR v) AND 0x80 \<noteq> 0) \<and> ((a XOR result) AND 0x80 \<noteq> 0));
          result2 = (if d \<and> result > 0x9f then result + 0x60 else result)
      in ((a AND 0xff00) OR (result2 AND 0xff), ov, result2 > 0xff))"

text \<open>The same on a 16-bit accumulator; \<open>result\<close> is a \<open>uint32_t\<close>.\<close>

definition adc16 :: "16 word \<Rightarrow> 16 word \<Rightarrow> bool \<Rightarrow> bool \<Rightarrow> 16 word \<times> bool \<times> bool" where
  "adc16 a16 val c d =
     (let a = (ucast a16 :: 32 word);
          v = (ucast val :: 32 word);
          result =
            (if d
             then (let r0 = (a AND 0xf) + (v AND 0xf) + b2w c;
                       r1 = (if r0 > 0x9 then ((r0 + 0x6) AND 0xf) + 0x10 else r0);
                       r2 = (a AND 0xf0) + (v AND 0xf0) + r1;
                       r3 = (if r2 > 0x9f then ((r2 + 0x60) AND 0xff) + 0x100 else r2);
                       r4 = (a AND 0xf00) + (v AND 0xf00) + r3;
                       r5 = (if r4 > 0x9ff then ((r4 + 0x600) AND 0xfff) + 0x1000 else r4)
                   in (a AND 0xf000) + (v AND 0xf000) + r5)
             else a + v + b2w c);
          ov = (\<not> ((a XOR v) AND 0x8000 \<noteq> 0) \<and> ((a XOR result) AND 0x8000 \<noteq> 0));
          result2 = (if d \<and> result > 0x9fff then result + 0x6000 else result)
      in (ucast result2, ov, result2 > 0xffff))"

definition Adc :: "32 word \<Rightarrow> 32 word \<Rightarrow> 'h cpu \<Rightarrow> 'h cpu" where
  "Adc low high s =
     (let s' = (if m_mf s
                then (let (val, s2) = Read low (CheckInterrupts s);
                          (a, ov, c) = adc8 (m_a s2) val (m_c s2) (m_d s2)
                      in s2\<lparr>m_v := ov, m_c := c, m_a := a\<rparr>)
                else (let (val, s1) = ReadWord low high True s;
                          (a, ov, c) = adc16 (m_a s1) val (m_c s1) (m_d s1)
                      in s1\<lparr>m_v := ov, m_c := c, m_a := a\<rparr>))
      in SetZnFlags (m_a s') (m_mf s') s')"

text \<open>
  The arithmetic of \<open>Sbc\<close> on an 8-bit accumulator. \<open>a_val\<close> and \<open>operand\<close> are
  \<open>uint8_t\<close>, \<open>result\<close> and \<open>temp\<close> are \<open>uint16_t\<close>; the differences are formed in
  \<open>int\<close> and wrap when stored.
\<close>

definition sbc8 :: "16 word \<Rightarrow> 8 word \<Rightarrow> bool \<Rightarrow> bool \<Rightarrow> 16 word \<times> bool \<times> bool" where
  "sbc8 a val c d =
     (let operand = (ucast val :: 16 word);
          a_val = a AND 0xff;
          result = a_val - operand - (1 - b2w c);
          ov = ((a_val XOR operand) AND (a_val XOR result) AND 0x80 \<noteq> 0);
          result2 =
            (if d
             then (let t0 = (a_val AND 0x0f) - (operand AND 0x0f) - (1 - b2w c);
                       t1 = (if t0 AND 0x10 \<noteq> 0 then t0 - 6 else t0);
                       t2 = (a_val AND 0xf0) - (operand AND 0xf0) + t1;
                       t3 = (if t2 AND 0x100 \<noteq> 0 then t2 - 0x60 else t2)
                   in t3)
             else result)
      in ((a AND 0xff00) OR (result2 AND 0xff), ov, result2 AND 0xff00 = 0))"

text \<open>The same on a 16-bit accumulator; \<open>result\<close> and \<open>temp\<close> are \<open>uint32_t\<close>.\<close>

definition sbc16 :: "16 word \<Rightarrow> 16 word \<Rightarrow> bool \<Rightarrow> bool \<Rightarrow> 16 word \<times> bool \<times> bool" where
  "sbc16 a16 val c d =
     (let operand = (ucast val :: 32 word);
          a_val = (ucast a16 :: 32 word);
          result = a_val - operand - (1 - b2w c);
          ov = ((a_val XOR operand) AND (a_val XOR result) AND 0x8000 \<noteq> 0);
          result2 =
            (if d
             then (let t0 = (a_val AND 0x000f) - (operand AND 0x000f) - (1 - b2w c);
                       t1 = (if t0 AND 0x10 \<noteq> 0 then t0 - 6 else t0);
                       t2 = (a_val AND 0x00f0) - (operand AND 0x00f0) + t1;
                       t3 = (if t2 AND 0x100 \<noteq> 0 then t2 - 0x60 else t2);
                       t4 = (a_val AND 0x0f00) - (operand AND 0x0f00) + t3;
                       t5 = (if t4 AND 0x1000 \<noteq> 0 then t4 - 0x600 else t4);
                       t6 = (a_val AND 0xf000) - (operand AND 0xf000) + t5;
                       t7 = (if t6 AND 0x10000 \<noteq> 0 then t6 - 0x6000 else t6)
                   in t7)
             else result)
      in (ucast (result2 AND 0xffff), ov, result2 AND 0xffff0000 = 0))"

definition Sbc :: "32 word \<Rightarrow> 32 word \<Rightarrow> 'h cpu \<Rightarrow> 'h cpu" where
  "Sbc low high s =
     (let s' = (if m_mf s
                then (let (val, s2) = Read low (CheckInterrupts s);
                          (a, ov, c) = sbc8 (m_a s2) val (m_c s2) (m_d s2)
                      in s2\<lparr>m_v := ov, m_c := c, m_a := a\<rparr>)
                else (let (val, s1) = ReadWord low high True s;
                          (a, ov, c) = sbc16 (m_a s1) val (m_c s1) (m_d s1)
                      in s1\<lparr>m_v := ov, m_c := c, m_a := a\<rparr>))
      in SetZnFlags (m_a s') (m_mf s') s')"

text \<open>
  The compare of \<open>Cmp\<close>, \<open>Cpx\<close> and \<open>Cpy\<close> differs in the register and the width
  flag only: \<open>result\<close> is a \<open>uint32_t\<close>, truncated to 16 bits by \<open>SetZnFlags\<close>.
\<close>

definition compare :: "16 word \<Rightarrow> bool \<Rightarrow> 32 word \<Rightarrow> 32 word \<Rightarrow> 'h cpu \<Rightarrow> 'h cpu" where
  "compare reg is8 low high s =
     (if is8
      then (let (val, s2) = Read low (CheckInterrupts s);
                result = (ucast (reg AND 0xff) :: 32 word) - ucast val
            in SetZnFlags (ucast result) is8 (s2\<lparr>m_c := (result < 0x100)\<rparr>))
      else (let (val, s1) = ReadWord low high True s;
                result = (ucast reg :: 32 word) - ucast val
            in SetZnFlags (ucast result) is8 (s1\<lparr>m_c := (result < 0x10000)\<rparr>)))"

definition Cmp :: "32 word \<Rightarrow> 32 word \<Rightarrow> 'h cpu \<Rightarrow> 'h cpu" where
  "Cmp low high s = compare (m_a s) (m_mf s) low high s"

definition Cpx :: "32 word \<Rightarrow> 32 word \<Rightarrow> 'h cpu \<Rightarrow> 'h cpu" where
  "Cpx low high s = compare (m_x s) (m_xf s) low high s"

definition Cpy :: "32 word \<Rightarrow> 32 word \<Rightarrow> 'h cpu \<Rightarrow> 'h cpu" where
  "Cpy low high s = compare (m_y s) (m_xf s) low high s"

definition Bit :: "32 word \<Rightarrow> 32 word \<Rightarrow> 'h cpu \<Rightarrow> 'h cpu" where
  "Bit low high s =
     (if m_mf s
      then (let (val, s2) = Read low (CheckInterrupts s)
            in s2\<lparr>m_z := ((m_a s2 AND 0xff) AND ucast val = 0),
                  m_n := (val AND 0x80 \<noteq> 0),
                  m_v := (val AND 0x40 \<noteq> 0)\<rparr>)
      else (let (val, s1) = ReadWord low high True s
            in s1\<lparr>m_z := (m_a s1 AND val = 0),
                  m_n := (val AND 0x8000 \<noteq> 0),
                  m_v := (val AND 0x4000 \<noteq> 0)\<rparr>))"

definition Lda :: "32 word \<Rightarrow> 32 word \<Rightarrow> 'h cpu \<Rightarrow> 'h cpu" where
  "Lda low high s =
     (let s' = (if m_mf s
                then (let (val, s2) = Read low (CheckInterrupts s)
                      in s2\<lparr>m_a := (m_a s2 AND 0xff00) OR ucast val\<rparr>)
                else (let (val, s1) = ReadWord low high True s in s1\<lparr>m_a := val\<rparr>))
      in SetZnFlags (m_a s') (m_mf s') s')"

definition Ldx :: "32 word \<Rightarrow> 32 word \<Rightarrow> 'h cpu \<Rightarrow> 'h cpu" where
  "Ldx low high s =
     (let s' = (if m_xf s
                then (let (val, s2) = Read low (CheckInterrupts s) in s2\<lparr>m_x := ucast val\<rparr>)
                else (let (val, s1) = ReadWord low high True s in s1\<lparr>m_x := val\<rparr>))
      in SetZnFlags (m_x s') (m_xf s') s')"

definition Ldy :: "32 word \<Rightarrow> 32 word \<Rightarrow> 'h cpu \<Rightarrow> 'h cpu" where
  "Ldy low high s =
     (let s' = (if m_xf s
                then (let (val, s2) = Read low (CheckInterrupts s) in s2\<lparr>m_y := ucast val\<rparr>)
                else (let (val, s1) = ReadWord low high True s in s1\<lparr>m_y := val\<rparr>))
      in SetZnFlags (m_y s') (m_xf s') s')"

text \<open>
  The four stores differ in the value and the width flag only. \<open>Write(low, m_a)\<close>
  truncates the 16-bit register to its low byte.
\<close>

definition store :: "16 word \<Rightarrow> bool \<Rightarrow> 32 word \<Rightarrow> 32 word \<Rightarrow> 'h cpu \<Rightarrow> 'h cpu" where
  "store val is8 low high s =
     (if is8 then Write low (ucast val) (CheckInterrupts s)
      else WriteWord low high val False True s)"

definition Sta :: "32 word \<Rightarrow> 32 word \<Rightarrow> 'h cpu \<Rightarrow> 'h cpu" where
  "Sta low high s = store (m_a s) (m_mf s) low high s"

definition Stx :: "32 word \<Rightarrow> 32 word \<Rightarrow> 'h cpu \<Rightarrow> 'h cpu" where
  "Stx low high s = store (m_x s) (m_xf s) low high s"

definition Sty :: "32 word \<Rightarrow> 32 word \<Rightarrow> 'h cpu \<Rightarrow> 'h cpu" where
  "Sty low high s = store (m_y s) (m_xf s) low high s"

definition Stz :: "32 word \<Rightarrow> 32 word \<Rightarrow> 'h cpu \<Rightarrow> 'h cpu" where
  "Stz low high s = store 0 (m_mf s) low high s"

text \<open>Read-modify-write primitives: read, idle, write (high byte first on 16 bits).\<close>

definition Ror :: "32 word \<Rightarrow> 32 word \<Rightarrow> 'h cpu \<Rightarrow> 'h cpu" where
  "Ror low high s =
     (let (carry, result, s') =
            (if m_mf s
             then (let (val, s1) = Read low s;
                       s2 = Idle s1;
                       result = (ucast (drop_bit 1 val) :: 16 word) OR push_bit 7 (b2w (m_c s2));
                       s3 = Write low (ucast result) (CheckInterrupts s2)
                   in (val AND 1 \<noteq> 0, result, s3))
             else (let (val, s1) = ReadWord low high False s;
                       s2 = Idle s1;
                       result = drop_bit 1 val OR push_bit 15 (b2w (m_c s2));
                       s3 = WriteWord low high result True True s2
                   in (val AND 1 \<noteq> 0, result, s3)))
      in (SetZnFlags result (m_mf s') s')\<lparr>m_c := carry\<rparr>)"

definition Rol :: "32 word \<Rightarrow> 32 word \<Rightarrow> 'h cpu \<Rightarrow> 'h cpu" where
  "Rol low high s =
     (let (result, s') =
            (if m_mf s
             then (let (val, s1) = Read low s;
                       result = (push_bit 1 (ucast val) :: 32 word) OR b2w (m_c s1);
                       s2 = Idle s1;
                       s3 = s2\<lparr>m_c := (result AND 0x100 \<noteq> 0)\<rparr>;
                       s4 = Write low (ucast result) (CheckInterrupts s3)
                   in (result, s4))
             else (let (val, s1) = ReadWord low high False s;
                       result = (push_bit 1 (ucast val) :: 32 word) OR b2w (m_c s1);
                       s2 = Idle s1;
                       s3 = s2\<lparr>m_c := (result AND 0x10000 \<noteq> 0)\<rparr>;
                       s4 = WriteWord low high (ucast result) True True s3
                   in (result, s4)))
      in SetZnFlags (ucast result) (m_mf s') s')"

definition Lsr :: "32 word \<Rightarrow> 32 word \<Rightarrow> 'h cpu \<Rightarrow> 'h cpu" where
  "Lsr low high s =
     (let (result, s') =
            (if m_mf s
             then (let (val, s1) = Read low s;
                       s2 = Idle s1;
                       s3 = s2\<lparr>m_c := (val AND 1 \<noteq> 0)\<rparr>;
                       result = (ucast (drop_bit 1 val) :: 16 word);
                       s4 = Write low (ucast result) (CheckInterrupts s3)
                   in (result, s4))
             else (let (val, s1) = ReadWord low high False s;
                       s2 = Idle s1;
                       s3 = s2\<lparr>m_c := (val AND 1 \<noteq> 0)\<rparr>;
                       result = drop_bit 1 val;
                       s4 = WriteWord low high result True True s3
                   in (result, s4)))
      in SetZnFlags result (m_mf s') s')"

definition Asl :: "32 word \<Rightarrow> 32 word \<Rightarrow> 'h cpu \<Rightarrow> 'h cpu" where
  "Asl low high s =
     (let (result, s') =
            (if m_mf s
             then (let (val, s1) = Read low s;
                       result = (push_bit 1 (ucast val) :: 32 word);
                       s2 = Idle s1;
                       s3 = s2\<lparr>m_c := (result AND 0x100 \<noteq> 0)\<rparr>;
                       s4 = Write low (ucast result) (CheckInterrupts s3)
                   in (result, s4))
             else (let (val, s1) = ReadWord low high False s;
                       result = (push_bit 1 (ucast val) :: 32 word);
                       s2 = Idle s1;
                       s3 = s2\<lparr>m_c := (result AND 0x10000 \<noteq> 0)\<rparr>;
                       s4 = WriteWord low high (ucast result) True True s3
                   in (result, s4)))
      in SetZnFlags (ucast result) (m_mf s') s')"

definition Inc :: "32 word \<Rightarrow> 32 word \<Rightarrow> 'h cpu \<Rightarrow> 'h cpu" where
  "Inc low high s =
     (let (result, s') =
            (if m_mf s
             then (let (val, s1) = Read low s;
                       result = (ucast val :: 16 word) + 1;
                       s2 = Idle s1;
                       s3 = Write low (ucast result) (CheckInterrupts s2)
                   in (result, s3))
             else (let (val, s1) = ReadWord low high False s;
                       result = val + 1;
                       s2 = Idle s1;
                       s3 = WriteWord low high result True True s2
                   in (result, s3)))
      in SetZnFlags result (m_mf s') s')"

definition Dec :: "32 word \<Rightarrow> 32 word \<Rightarrow> 'h cpu \<Rightarrow> 'h cpu" where
  "Dec low high s =
     (let (result, s') =
            (if m_mf s
             then (let (val, s1) = Read low s;
                       result = (ucast val :: 16 word) - 1;
                       s2 = Idle s1;
                       s3 = Write low (ucast result) (CheckInterrupts s2)
                   in (result, s3))
             else (let (val, s1) = ReadWord low high False s;
                       result = val - 1;
                       s2 = Idle s1;
                       s3 = WriteWord low high result True True s2
                   in (result, s3)))
      in SetZnFlags result (m_mf s') s')"

definition Tsb :: "32 word \<Rightarrow> 32 word \<Rightarrow> 'h cpu \<Rightarrow> 'h cpu" where
  "Tsb low high s =
     (if m_mf s
      then (let (val, s1) = Read low s;
                s2 = Idle s1;
                s3 = s2\<lparr>m_z := ((m_a s2 AND 0xff) AND ucast val = 0)\<rparr>
            in Write low (val OR ucast (m_a s3 AND 0xff)) (CheckInterrupts s3))
      else (let (val, s1) = ReadWord low high False s;
                s2 = Idle s1;
                s3 = s2\<lparr>m_z := (m_a s2 AND val = 0)\<rparr>
            in WriteWord low high (val OR m_a s3) True True s3))"

definition Trb :: "32 word \<Rightarrow> 32 word \<Rightarrow> 'h cpu \<Rightarrow> 'h cpu" where
  "Trb low high s =
     (if m_mf s
      then (let (val, s1) = Read low s;
                s2 = Idle s1;
                s3 = s2\<lparr>m_z := ((m_a s2 AND 0xff) AND ucast val = 0)\<rparr>
            in Write low (val AND NOT (ucast (m_a s3 AND 0xff))) (CheckInterrupts s3))
      else (let (val, s1) = ReadWord low high False s;
                s2 = Idle s1;
                s3 = s2\<lparr>m_z := (m_a s2 AND val = 0)\<rparr>
            in WriteWord low high (val AND NOT (m_a s3)) True True s3))"

section \<open>Opcode dispatch (cpu.cpp lines 441-704)\<close>

text \<open>
  \<open>{ auto [low, high] = AdrX(); Op(low, high); break; }\<close>: an addressing mode followed
  by a primitive.
\<close>

definition via ::
  "('h cpu \<Rightarrow> adr_pair \<times> 'h cpu) \<Rightarrow> (32 word \<Rightarrow> 32 word \<Rightarrow> 'h cpu \<Rightarrow> 'h cpu) \<Rightarrow> 'h cpu \<Rightarrow> 'h cpu" where
  "via adr op s = (let ((low, high), s1) = adr s in op low high s1)"

text \<open>
  The cases of the \<open>switch\<close> that are more than an addressing mode and a primitive,
  one definition for each, named by the opcode. In \<open>op_82\<close> the right operand of
  \<open>m_pc +=\<close> is evaluated first (C++17), so the displacement is added to the program
  counter behind the operand.
\<close>

definition op_00 :: "'h cpu \<Rightarrow> 'h cpu" where \<comment> \<open>BRK\<close>
  "op_00 s =
     (let s1 = snd (ReadOpcode s);
          s2 = (if \<not> m_e s1 then PushByte (m_k s1) s1 else s1);
          s3 = PushWord (m_pc s2) False s2;
          s4 = PushByte (GetFlags s3 OR 0x10) s3;
          s5 = s4\<lparr>m_i := True, m_d := False, m_k := 0\<rparr>;
          vectorAddr = (if m_e s5 then 0xFFFE else 0xFFE6 :: 16 word);
          (w, s6) = ReadWord (ucast vectorAddr) (ucast vectorAddr + 1) True s5
      in s6\<lparr>m_pc := w\<rparr>)"

definition op_02 :: "'h cpu \<Rightarrow> 'h cpu" where \<comment> \<open>COP\<close>
  "op_02 s =
     (let s1 = snd (ReadOpcode s);
          s2 = (if \<not> m_e s1 then PushByte (m_k s1) s1 else s1);
          s3 = PushWord (m_pc s2) False s2;
          s4 = PushByte (GetFlags s3) s3;
          s5 = s4\<lparr>m_i := True, m_d := False, m_k := 0\<rparr>;
          (w, s6) = ReadWord (if m_e s5 then 0xfff4 else 0xffe4)
                             (if m_e s5 then 0xfff5 else 0xffe5) True s5
      in s6\<lparr>m_pc := w\<rparr>)"

definition op_08 :: "'h cpu \<Rightarrow> 'h cpu" where \<comment> \<open>PHP\<close>
  "op_08 s =
     (let s1 = AdrImp s in PushByte (GetFlags s1) s1)"

definition op_0a :: "'h cpu \<Rightarrow> 'h cpu" where \<comment> \<open>ASL A\<close>
  "op_0a s =
     (let s1 = AdrImp s;
          s2 = (if m_mf s1
                then s1\<lparr>m_c := (m_a s1 AND 0x80 \<noteq> 0),
                        m_a := (m_a s1 AND 0xff00) OR (push_bit 1 (m_a s1) AND 0xff)\<rparr>
                else s1\<lparr>m_c := (m_a s1 AND 0x8000 \<noteq> 0), m_a := push_bit 1 (m_a s1)\<rparr>)
      in SetZnFlags (m_a s2) (m_mf s2) s2)"

definition op_0b :: "'h cpu \<Rightarrow> 'h cpu" where \<comment> \<open>PHD\<close>
  "op_0b s =
     (let s1 = AdrImp s in PushWord (m_dp s1) True s1)"

definition op_1a :: "'h cpu \<Rightarrow> 'h cpu" where \<comment> \<open>INC A\<close>
  "op_1a s =
     (let s1 = AdrImp s;
          s2 = (if m_mf s1
                then s1\<lparr>m_a := (m_a s1 AND 0xff00) OR ((m_a s1 + 1) AND 0xff)\<rparr>
                else s1\<lparr>m_a := m_a s1 + 1\<rparr>)
      in SetZnFlags (m_a s2) (m_mf s2) s2)"

definition op_1b :: "'h cpu \<Rightarrow> 'h cpu" where \<comment> \<open>TCS\<close>
  "op_1b s =
     (let s1 = AdrImp s;
          s2 = s1\<lparr>m_sp := m_a s1\<rparr>
      in if m_e s2 then s2\<lparr>m_sp := (m_sp s2 AND 0xff) OR 0x100\<rparr> else s2)"

definition op_20 :: "'h cpu \<Rightarrow> 'h cpu" where \<comment> \<open>JSR\<close>
  "op_20 s =
     (let (val, s1) = ReadOpcodeWord False s;
          s2 = Idle s1;
          s3 = PushWord (m_pc s2 - 1) True s2
      in s3\<lparr>m_pc := val\<rparr>)"

definition op_22 :: "'h cpu \<Rightarrow> 'h cpu" where \<comment> \<open>JSL\<close>
  "op_22 s =
     (let (w, s1) = ReadOpcodeWord False s;
          (b, s2) = ReadOpcode s1;
          val = (ucast w OR push_bit 16 (ucast b) :: 32 word);
          s3 = PushWord (m_pc s2 - 1) True s2
      in s3\<lparr>m_k := ucast (drop_bit 16 val), m_pc := ucast (val AND 0xffff)\<rparr>)"

definition op_28 :: "'h cpu \<Rightarrow> 'h cpu" where \<comment> \<open>PLP\<close>
  "op_28 s =
     (let s1 = Idle (AdrImp s);
          (val, s2) = PullByte s1
      in SetFlags val s2)"

definition op_2a :: "'h cpu \<Rightarrow> 'h cpu" where \<comment> \<open>ROL A\<close>
  "op_2a s =
     (let s1 = AdrImp s;
          result = (push_bit 1 (ucast (m_a s1)) :: 32 word) OR b2w (m_c s1);
          s2 = (if m_mf s1
                then s1\<lparr>m_c := (result AND 0x100 \<noteq> 0),
                        m_a := (m_a s1 AND 0xff00) OR (ucast result AND 0xff)\<rparr>
                else s1\<lparr>m_c := (result AND 0x10000 \<noteq> 0), m_a := ucast result\<rparr>)
      in SetZnFlags (m_a s2) (m_mf s2) s2)"

definition op_2b :: "'h cpu \<Rightarrow> 'h cpu" where \<comment> \<open>PLD\<close>
  "op_2b s =
     (let s1 = Idle (AdrImp s);
          (w, s2) = PullWord True s1;
          s3 = s2\<lparr>m_dp := w\<rparr>
      in SetZnFlags (m_dp s3) False s3)"

definition op_3a :: "'h cpu \<Rightarrow> 'h cpu" where \<comment> \<open>DEC A\<close>
  "op_3a s =
     (let s1 = AdrImp s;
          s2 = (if m_mf s1
                then s1\<lparr>m_a := (m_a s1 AND 0xff00) OR ((m_a s1 - 1) AND 0xff)\<rparr>
                else s1\<lparr>m_a := m_a s1 - 1\<rparr>)
      in SetZnFlags (m_a s2) (m_mf s2) s2)"

definition op_3b :: "'h cpu \<Rightarrow> 'h cpu" where \<comment> \<open>TSC\<close>
  "op_3b s =
     (let s1 = AdrImp s;
          s2 = s1\<lparr>m_a := m_sp s1\<rparr>
      in SetZnFlags (m_a s2) False s2)"

definition op_40 :: "'h cpu \<Rightarrow> 'h cpu" where \<comment> \<open>RTI\<close>
  "op_40 s =
     (let s1 = Idle (AdrImp s);
          (f, s2) = PullByte s1;
          s3 = SetFlags f s2;
          (w, s4) = PullWord False s3;
          s5 = s4\<lparr>m_pc := w\<rparr>
      in if \<not> m_e s5 then (let (b, s6) = PullByte s5 in s6\<lparr>m_k := b\<rparr>) else s5)"

definition op_42 :: "'h cpu \<Rightarrow> 'h cpu" where \<comment> \<open>WDM\<close>
  "op_42 s =
     snd (ReadOpcode s)"

definition op_44 :: "'h cpu \<Rightarrow> 'h cpu" where \<comment> \<open>MVP\<close>
  "op_44 s =
     (let (dest, s1) = ReadOpcode s;
          (src, s2) = ReadOpcode s1;
          s3 = s2\<lparr>m_db := dest\<rparr>;
          (val, s4) = Read (push_bit 16 (ucast src) OR ucast (m_x s3)) s3;
          s5 = Write (push_bit 16 (ucast dest) OR ucast (m_y s4)) val s4;
          s6 = s5\<lparr>m_a := m_a s5 - 1, m_x := m_x s5 - 1, m_y := m_y s5 - 1\<rparr>;
          s7 = (if m_a s6 \<noteq> 0xffff then s6\<lparr>m_pc := m_pc s6 - 3\<rparr> else s6);
          s8 = (if m_xf s7 then s7\<lparr>m_x := m_x s7 AND 0xff, m_y := m_y s7 AND 0xff\<rparr> else s7)
      in Idle (CheckInterrupts (Idle s8)))"

definition op_48 :: "'h cpu \<Rightarrow> 'h cpu" where \<comment> \<open>PHA\<close>
  "op_48 s =
     (let s1 = AdrImp s
      in if m_mf s1 then PushByte (ucast (m_a s1)) s1 else PushWord (m_a s1) True s1)"

definition op_4a :: "'h cpu \<Rightarrow> 'h cpu" where \<comment> \<open>LSR A\<close>
  "op_4a s =
     (let s1 = AdrImp s;
          s2 = s1\<lparr>m_c := (m_a s1 AND 1 \<noteq> 0)\<rparr>;
          s3 = (if m_mf s2
                then s2\<lparr>m_a := (m_a s2 AND 0xff00) OR (drop_bit 1 (m_a s2) AND 0x7f)\<rparr>
                else s2\<lparr>m_a := drop_bit 1 (m_a s2)\<rparr>)
      in SetZnFlags (m_a s3) (m_mf s3) s3)"

definition op_4b :: "'h cpu \<Rightarrow> 'h cpu" where \<comment> \<open>PHK\<close>
  "op_4b s =
     (let s1 = AdrImp s in PushByte (m_k s1) s1)"

definition op_4c :: "'h cpu \<Rightarrow> 'h cpu" where \<comment> \<open>JMP abs\<close>
  "op_4c s =
     (let (w, s1) = ReadOpcodeWord True s in s1\<lparr>m_pc := w\<rparr>)"

definition op_54 :: "'h cpu \<Rightarrow> 'h cpu" where \<comment> \<open>MVN\<close>
  "op_54 s =
     (let (dest, s1) = ReadOpcode s;
          (src, s2) = ReadOpcode s1;
          s3 = s2\<lparr>m_db := dest\<rparr>;
          (val, s4) = Read (push_bit 16 (ucast src) OR ucast (m_x s3)) s3;
          s5 = Write (push_bit 16 (ucast dest) OR ucast (m_y s4)) val s4;
          s6 = s5\<lparr>m_a := m_a s5 - 1, m_x := m_x s5 + 1, m_y := m_y s5 + 1\<rparr>;
          s7 = (if m_a s6 \<noteq> 0xffff then s6\<lparr>m_pc := m_pc s6 - 3\<rparr> else s6);
          s8 = (if m_xf s7 then s7\<lparr>m_x := m_x s7 AND 0xff, m_y := m_y s7 AND 0xff\<rparr> else s7)
      in Idle (CheckInterrupts (Idle s8)))"

definition op_5a :: "'h cpu \<Rightarrow> 'h cpu" where \<comment> \<open>PHY\<close>
  "op_5a s =
     (let s1 = AdrImp s
      in if m_xf s1 then PushByte (ucast (m_y s1)) s1 else PushWord (m_y s1) True s1)"

definition op_5b :: "'h cpu \<Rightarrow> 'h cpu" where \<comment> \<open>TCD\<close>
  "op_5b s =
     (let s1 = AdrImp s;
          s2 = s1\<lparr>m_dp := m_a s1\<rparr>
      in SetZnFlags (m_dp s2) False s2)"

definition op_5c :: "'h cpu \<Rightarrow> 'h cpu" where \<comment> \<open>JML long\<close>
  "op_5c s =
     (let (val, s1) = ReadOpcodeWord False s;
          (b, s2) = ReadOpcode (CheckInterrupts s1)
      in s2\<lparr>m_k := b, m_pc := val\<rparr>)"

definition op_60 :: "'h cpu \<Rightarrow> 'h cpu" where \<comment> \<open>RTS\<close>
  "op_60 s =
     (let s1 = Idle (Idle s);
          (w, s2) = PullWord False s1;
          s3 = s2\<lparr>m_pc := w + 1\<rparr>
      in Idle (CheckInterrupts s3))"

definition op_62 :: "'h cpu \<Rightarrow> 'h cpu" where \<comment> \<open>PER\<close>
  "op_62 s =
     (let (val, s1) = ReadOpcodeWord False s;
          s2 = Idle s1
      in PushWord (m_pc s2 + val) True s2)"

definition op_68 :: "'h cpu \<Rightarrow> 'h cpu" where \<comment> \<open>PLA\<close>
  "op_68 s =
     (let s1 = Idle (AdrImp s);
          s2 = (if m_mf s1
                then (let (b, t) = PullByte s1 in t\<lparr>m_a := (m_a t AND 0xff00) OR ucast b\<rparr>)
                else (let (w, t) = PullWord True s1 in t\<lparr>m_a := w\<rparr>))
      in SetZnFlags (m_a s2) (m_mf s2) s2)"

definition op_6a :: "'h cpu \<Rightarrow> 'h cpu" where \<comment> \<open>ROR A\<close>
  "op_6a s =
     (let s1 = AdrImp s;
          carry = (m_a s1 AND 1 \<noteq> 0);
          s2 = (if m_mf s1
                then s1\<lparr>m_a := (m_a s1 AND 0xff00) OR (drop_bit 1 (m_a s1) AND 0x7f)
                                OR push_bit 7 (b2w (m_c s1))\<rparr>
                else s1\<lparr>m_a := drop_bit 1 (m_a s1) OR push_bit 15 (b2w (m_c s1))\<rparr>);
          s3 = s2\<lparr>m_c := carry\<rparr>
      in SetZnFlags (m_a s3) (m_mf s3) s3)"

definition op_6b :: "'h cpu \<Rightarrow> 'h cpu" where \<comment> \<open>RTL\<close>
  "op_6b s =
     (let s1 = Idle (Idle s);
          (w, s2) = PullWord False s1;
          s3 = CheckInterrupts (s2\<lparr>m_pc := w + 1\<rparr>);
          (b, s4) = PullByte s3
      in s4\<lparr>m_k := b\<rparr>)"

definition op_6c :: "'h cpu \<Rightarrow> 'h cpu" where \<comment> \<open>JMP (abs)\<close>
  "op_6c s =
     (let (adr, s1) = ReadOpcodeWord False s;
          adr_h = (if m_e s1 \<and> adr AND 0xff = 0xff then adr AND 0xff00 else adr + 1);
          (w, s2) = ReadWord (ucast adr) (ucast adr_h) True s1
      in s2\<lparr>m_pc := w\<rparr>)"

definition op_7a :: "'h cpu \<Rightarrow> 'h cpu" where \<comment> \<open>PLY\<close>
  "op_7a s =
     (let s1 = Idle (AdrImp s);
          s2 = (if m_xf s1
                then (let (b, t) = PullByte s1 in t\<lparr>m_y := ucast b\<rparr>)
                else (let (w, t) = PullWord True s1 in t\<lparr>m_y := w\<rparr>))
      in SetZnFlags (m_y s2) (m_xf s2) s2)"

definition op_7b :: "'h cpu \<Rightarrow> 'h cpu" where \<comment> \<open>TDC\<close>
  "op_7b s =
     (let s1 = AdrImp s;
          s2 = s1\<lparr>m_a := m_dp s1\<rparr>
      in SetZnFlags (m_a s2) False s2)"

definition op_7c :: "'h cpu \<Rightarrow> 'h cpu" where \<comment> \<open>JMP (abs,X)\<close>
  "op_7c s =
     (let (adr, s1) = ReadOpcodeWord False s;
          s2 = Idle s1;
          base_adr = (push_bit 16 (ucast (m_k s2)) OR ucast adr :: 32 word);
          (w, s3) = ReadWord (base_adr + ucast (m_x s2)) (base_adr + ucast (m_x s2) + 1) True s2
      in s3\<lparr>m_pc := w\<rparr>)"

definition op_82 :: "'h cpu \<Rightarrow> 'h cpu" where \<comment> \<open>BRL\<close>
  "op_82 s =
     (let (w, s1) = ReadOpcodeWord False s;
          s2 = s1\<lparr>m_pc := m_pc s1 + w\<rparr>
      in Idle (CheckInterrupts s2))"

definition op_88 :: "'h cpu \<Rightarrow> 'h cpu" where \<comment> \<open>DEY\<close>
  "op_88 s =
     (let s1 = AdrImp s;
          s2 = (if m_xf s1 then s1\<lparr>m_y := (m_y s1 - 1) AND 0xff\<rparr>
                else s1\<lparr>m_y := m_y s1 - 1\<rparr>)
      in SetZnFlags (m_y s2) (m_xf s2) s2)"

definition op_89 :: "'h cpu \<Rightarrow> 'h cpu" where \<comment> \<open>BIT #imm\<close>
  "op_89 s =
     (if m_mf s
      then (let (val, s1) = ReadOpcode (CheckInterrupts s)
            in s1\<lparr>m_z := (m_a s1 AND ucast val = 0)\<rparr>)
      else (let (val, s1) = ReadOpcodeWord True s
            in s1\<lparr>m_z := (m_a s1 AND val = 0)\<rparr>))"

definition op_8a :: "'h cpu \<Rightarrow> 'h cpu" where \<comment> \<open>TXA\<close>
  "op_8a s =
     (let s1 = AdrImp s;
          s2 = (if m_mf s1 then s1\<lparr>m_a := (m_a s1 AND 0xff00) OR (m_x s1 AND 0xff)\<rparr>
                else s1\<lparr>m_a := m_x s1\<rparr>)
      in SetZnFlags (m_a s2) (m_mf s2) s2)"

definition op_8b :: "'h cpu \<Rightarrow> 'h cpu" where \<comment> \<open>PHB\<close>
  "op_8b s =
     (let s1 = AdrImp s in PushByte (m_db s1) s1)"

definition op_98 :: "'h cpu \<Rightarrow> 'h cpu" where \<comment> \<open>TYA\<close>
  "op_98 s =
     (let s1 = AdrImp s;
          s2 = (if m_mf s1 then s1\<lparr>m_a := (m_a s1 AND 0xff00) OR (m_y s1 AND 0xff)\<rparr>
                else s1\<lparr>m_a := m_y s1\<rparr>)
      in SetZnFlags (m_a s2) (m_mf s2) s2)"

definition op_9a :: "'h cpu \<Rightarrow> 'h cpu" where \<comment> \<open>TXS\<close>
  "op_9a s =
     (let s1 = AdrImp s
      in s1\<lparr>m_sp := (if m_e s1 then (m_sp s1 AND 0xFF00) OR (m_x s1 AND 0x00FF)
                       else m_x s1)\<rparr>)"

definition op_9b :: "'h cpu \<Rightarrow> 'h cpu" where \<comment> \<open>TXY\<close>
  "op_9b s =
     (let s1 = AdrImp s;
          s2 = (if m_xf s1 then s1\<lparr>m_y := m_x s1 AND 0xff\<rparr> else s1\<lparr>m_y := m_x s1\<rparr>)
      in SetZnFlags (m_y s2) (m_xf s2) s2)"

definition op_a8 :: "'h cpu \<Rightarrow> 'h cpu" where \<comment> \<open>TAY\<close>
  "op_a8 s =
     (let s1 = AdrImp s;
          s2 = (if m_xf s1 then s1\<lparr>m_y := m_a s1 AND 0xff\<rparr> else s1\<lparr>m_y := m_a s1\<rparr>)
      in SetZnFlags (m_y s2) (m_xf s2) s2)"

definition op_aa :: "'h cpu \<Rightarrow> 'h cpu" where \<comment> \<open>TAX\<close>
  "op_aa s =
     (let s1 = AdrImp s;
          s2 = (if m_xf s1 then s1\<lparr>m_x := m_a s1 AND 0xff\<rparr> else s1\<lparr>m_x := m_a s1\<rparr>)
      in SetZnFlags (m_x s2) (m_xf s2) s2)"

definition op_ab :: "'h cpu \<Rightarrow> 'h cpu" where \<comment> \<open>PLB\<close>
  "op_ab s =
     (let s1 = Idle (AdrImp s);
          (b, s2) = PullByte s1;
          s3 = s2\<lparr>m_db := b\<rparr>
      in SetZnFlags (ucast (m_db s3)) True s3)"

definition op_ba :: "'h cpu \<Rightarrow> 'h cpu" where \<comment> \<open>TSX\<close>
  "op_ba s =
     (let s1 = AdrImp s;
          s2 = (if m_xf s1 then s1\<lparr>m_x := m_sp s1 AND 0xff\<rparr> else s1\<lparr>m_x := m_sp s1\<rparr>)
      in SetZnFlags (m_x s2) (m_xf s2) s2)"

definition op_bb :: "'h cpu \<Rightarrow> 'h cpu" where \<comment> \<open>TYX\<close>
  "op_bb s =
     (let s1 = AdrImp s;
          s2 = (if m_xf s1 then s1\<lparr>m_x := m_y s1 AND 0xff\<rparr> else s1\<lparr>m_x := m_y s1\<rparr>)
      in SetZnFlags (m_x s2) (m_xf s2) s2)"

definition op_c2 :: "'h cpu \<Rightarrow> 'h cpu" where \<comment> \<open>REP\<close>
  "op_c2 s =
     (let (val, s1) = ReadOpcode s;
          s2 = CheckInterrupts s1;
          valToClear = val AND (if m_e s2 then NOT 0x30 else 0xFF);
          s3 = SetFlags (GetFlags s2 AND NOT valToClear) s2
      in Idle s3)"

definition op_c8 :: "'h cpu \<Rightarrow> 'h cpu" where \<comment> \<open>INY\<close>
  "op_c8 s =
     (let s1 = AdrImp s;
          s2 = (if m_xf s1 then s1\<lparr>m_y := (m_y s1 + 1) AND 0xff\<rparr>
                else s1\<lparr>m_y := m_y s1 + 1\<rparr>)
      in SetZnFlags (m_y s2) (m_xf s2) s2)"

definition op_ca :: "'h cpu \<Rightarrow> 'h cpu" where \<comment> \<open>DEX\<close>
  "op_ca s =
     (let s1 = AdrImp s;
          s2 = (if m_xf s1 then s1\<lparr>m_x := (m_x s1 - 1) AND 0xff\<rparr>
                else s1\<lparr>m_x := m_x s1 - 1\<rparr>)
      in SetZnFlags (m_x s2) (m_xf s2) s2)"

definition op_cb :: "'h cpu \<Rightarrow> 'h cpu" where \<comment> \<open>WAI\<close>
  "op_cb s =
     Idle (Idle (s\<lparr>m_waiting := True\<rparr>))"

definition op_d4 :: "'h cpu \<Rightarrow> 'h cpu" where \<comment> \<open>PEI\<close>
  "op_d4 s =
     (let ((low, high), s1) = AdrDp s;
          (w, s2) = ReadWord low high False s1
      in PushWord w True s2)"

definition op_da :: "'h cpu \<Rightarrow> 'h cpu" where \<comment> \<open>PHX\<close>
  "op_da s =
     (let s1 = AdrImp s
      in if m_xf s1 then PushByte (ucast (m_x s1)) s1 else PushWord (m_x s1) True s1)"

definition op_db :: "'h cpu \<Rightarrow> 'h cpu" where \<comment> \<open>STP\<close>
  "op_db s =
     Idle (Idle (s\<lparr>m_stopped := True\<rparr>))"

definition op_dc :: "'h cpu \<Rightarrow> 'h cpu" where \<comment> \<open>JML [abs]\<close>
  "op_dc s =
     (let (adr, s1) = ReadOpcodeWord False s;
          (w, s2) = ReadWord (ucast adr) ((ucast adr + 1) AND 0xffff) False s1;
          s3 = CheckInterrupts (s2\<lparr>m_pc := w\<rparr>);
          (b, s4) = Read ((ucast adr + 2) AND 0xffff) s3
      in s4\<lparr>m_k := b\<rparr>)"

definition op_e2 :: "'h cpu \<Rightarrow> 'h cpu" where \<comment> \<open>SEP\<close>
  "op_e2 s =
     (let (v, s1) = ReadOpcode s;
          s2 = CheckInterrupts s1;
          val = v AND (if m_e s2 then NOT 0x30 else 0xFF);
          s3 = SetFlags (GetFlags s2 OR val) s2
      in Idle s3)"

definition op_e8 :: "'h cpu \<Rightarrow> 'h cpu" where \<comment> \<open>INX\<close>
  "op_e8 s =
     (let s1 = AdrImp s;
          s2 = (if m_xf s1 then s1\<lparr>m_x := (m_x s1 + 1) AND 0xff\<rparr>
                else s1\<lparr>m_x := m_x s1 + 1\<rparr>)
      in SetZnFlags (m_x s2) (m_xf s2) s2)"

definition op_ea :: "'h cpu \<Rightarrow> 'h cpu" where \<comment> \<open>NOP\<close>
  "op_ea s =
     AdrImp s"

definition op_eb :: "'h cpu \<Rightarrow> 'h cpu" where \<comment> \<open>XBA\<close>
  "op_eb s =
     (let s1 = AdrImp s;
          high = (ucast (drop_bit 8 (m_a s1)) :: 8 word);
          s2 = s1\<lparr>m_a := push_bit 8 (m_a s1) OR ucast high\<rparr>
      in SetZnFlags (m_a s2) True s2)"

definition op_f4 :: "'h cpu \<Rightarrow> 'h cpu" where \<comment> \<open>PEA\<close>
  "op_f4 s =
     (let (w, s1) = ReadOpcodeWord False s in PushWord w True s1)"

definition op_fa :: "'h cpu \<Rightarrow> 'h cpu" where \<comment> \<open>PLX\<close>
  "op_fa s =
     (let s1 = Idle (AdrImp s);
          s2 = (if m_xf s1
                then (let (b, t) = PullByte s1 in t\<lparr>m_x := ucast b\<rparr>)
                else (let (w, t) = PullWord True s1 in t\<lparr>m_x := w\<rparr>))
      in SetZnFlags (m_x s2) (m_xf s2) s2)"

definition op_fb :: "'h cpu \<Rightarrow> 'h cpu" where \<comment> \<open>XCE\<close>
  "op_fb s =
     (let s1 = AdrImp s;
          old_e = m_e s1;
          s2 = s1\<lparr>m_c := m_e s1, m_e := m_c s1\<rparr>
      in if m_e s2 \<noteq> old_e
         then (if m_e s2
               then s2\<lparr>m_mf := True, m_xf := True, m_sp := (m_sp s2 AND 0x00FF) OR 0x0100,
                       m_x := m_x s2 AND 0x00FF, m_y := m_y s2 AND 0x00FF\<rparr>
               else s2\<lparr>m_mf := False, m_xf := False\<rparr>)
         else s2)"

definition op_fc :: "'h cpu \<Rightarrow> 'h cpu" where \<comment> \<open>JSR (abs,X)\<close>
  "op_fc s =
     (let (adr, s1) = ReadOpcodeWord False s;
          s2 = PushWord (m_pc s1 - 1) False s1;
          s3 = Idle s2;
          base_adr = (push_bit 16 (ucast (m_k s3)) OR ucast adr :: 32 word);
          (w, s4) = ReadWord (base_adr + ucast (m_x s3)) (base_adr + ucast (m_x s3) + 1) True s3
      in s4\<lparr>m_pc := w\<rparr>)"

text \<open>
  The \<open>switch\<close> itself, in the order of the source. All 256 opcodes have a case, so
  the \<open>default\<close> branch is never taken.
\<close>

definition DoOpcode :: "8 word \<Rightarrow> 'h cpu \<Rightarrow> 'h cpu" where
  "DoOpcode opcode s =
     (if opcode = 0x00 then op_00 s
      else if opcode = 0x01 then via AdrIdx Ora s
      else if opcode = 0x02 then op_02 s
      else if opcode = 0x03 then via AdrSr Ora s
      else if opcode = 0x04 then via AdrDp Tsb s
      else if opcode = 0x05 then via AdrDp Ora s
      else if opcode = 0x06 then via AdrDp Asl s
      else if opcode = 0x07 then via AdrIdl Ora s
      else if opcode = 0x08 then op_08 s
      else if opcode = 0x09 then via (AdrImm False) Ora s
      else if opcode = 0x0a then op_0a s
      else if opcode = 0x0b then op_0b s
      else if opcode = 0x0c then via AdrAbs Tsb s
      else if opcode = 0x0d then via AdrAbs Ora s
      else if opcode = 0x0e then via AdrAbs Asl s
      else if opcode = 0x0f then via AdrAbl Ora s
      else if opcode = 0x10 then DoBranch (\<not> m_n s) s
      else if opcode = 0x11 then via (AdrIdy False) Ora s
      else if opcode = 0x12 then via AdrIdp Ora s
      else if opcode = 0x13 then via AdrIsy Ora s
      else if opcode = 0x14 then via AdrDp Trb s
      else if opcode = 0x15 then via AdrDpx Ora s
      else if opcode = 0x16 then via AdrDpx Asl s
      else if opcode = 0x17 then via AdrIly Ora s
      else if opcode = 0x18 then (AdrImp s)\<lparr>m_c := False\<rparr>
      else if opcode = 0x19 then via (AdrAby False) Ora s
      else if opcode = 0x1a then op_1a s
      else if opcode = 0x1b then op_1b s
      else if opcode = 0x1c then via AdrAbs Trb s
      else if opcode = 0x1d then via (AdrAbx False) Ora s
      else if opcode = 0x1e then via (AdrAbx True) Asl s
      else if opcode = 0x1f then via AdrAlx Ora s
      else if opcode = 0x20 then op_20 s
      else if opcode = 0x21 then via AdrIdx And s
      else if opcode = 0x22 then op_22 s
      else if opcode = 0x23 then via AdrSr And s
      else if opcode = 0x24 then via AdrDp Bit s
      else if opcode = 0x25 then via AdrDp And s
      else if opcode = 0x26 then via AdrDp Rol s
      else if opcode = 0x27 then via AdrIdl And s
      else if opcode = 0x28 then op_28 s
      else if opcode = 0x29 then via (AdrImm False) And s
      else if opcode = 0x2a then op_2a s
      else if opcode = 0x2b then op_2b s
      else if opcode = 0x2c then via AdrAbs Bit s
      else if opcode = 0x2d then via AdrAbs And s
      else if opcode = 0x2e then via AdrAbs Rol s
      else if opcode = 0x2f then via AdrAbl And s
      else if opcode = 0x30 then DoBranch (m_n s) s
      else if opcode = 0x31 then via (AdrIdy False) And s
      else if opcode = 0x32 then via AdrIdp And s
      else if opcode = 0x33 then via AdrIsy And s
      else if opcode = 0x34 then via AdrDpx Bit s
      else if opcode = 0x35 then via AdrDpx And s
      else if opcode = 0x36 then via AdrDpx Rol s
      else if opcode = 0x37 then via AdrIly And s
      else if opcode = 0x38 then (AdrImp s)\<lparr>m_c := True\<rparr>
      else if opcode = 0x39 then via (AdrAby False) And s
      else if opcode = 0x3a then op_3a s
      else if opcode = 0x3b then op_3b s
      else if opcode = 0x3c then via (AdrAbx False) Bit s
      else if opcode = 0x3d then via (AdrAbx False) And s
      else if opcode = 0x3e then via (AdrAbx True) Rol s
      else if opcode = 0x3f then via AdrAlx And s
      else if opcode = 0x40 then op_40 s
      else if opcode = 0x41 then via AdrIdx Eor s
      else if opcode = 0x42 then op_42 s
      else if opcode = 0x43 then via AdrSr Eor s
      else if opcode = 0x44 then op_44 s
      else if opcode = 0x45 then via AdrDp Eor s
      else if opcode = 0x46 then via AdrDp Lsr s
      else if opcode = 0x47 then via AdrIdl Eor s
      else if opcode = 0x48 then op_48 s
      else if opcode = 0x49 then via (AdrImm False) Eor s
      else if opcode = 0x4a then op_4a s
      else if opcode = 0x4b then op_4b s
      else if opcode = 0x4c then op_4c s
      else if opcode = 0x4d then via AdrAbs Eor s
      else if opcode = 0x4e then via AdrAbs Lsr s
      else if opcode = 0x4f then via AdrAbl Eor s
      else if opcode = 0x50 then DoBranch (\<not> m_v s) s
      else if opcode = 0x51 then via (AdrIdy False) Eor s
      else if opcode = 0x52 then via AdrIdp Eor s
      else if opcode = 0x53 then via AdrIsy Eor s
      else if opcode = 0x54 then op_54 s
      else if opcode = 0x55 then via AdrDpx Eor s
      else if opcode = 0x56 then via AdrDpx Lsr s
      else if opcode = 0x57 then via AdrIly Eor s
      else if opcode = 0x58 then (AdrImp s)\<lparr>m_i := False\<rparr>
      else if opcode = 0x59 then via (AdrAby False) Eor s
      else if opcode = 0x5a then op_5a s
      else if opcode = 0x5b then op_5b s
      else if opcode = 0x5c then op_5c s
      else if opcode = 0x5d then via (AdrAbx False) Eor s
      else if opcode = 0x5e then via (AdrAbx True) Lsr s
      else if opcode = 0x5f then via AdrAlx Eor s
      else if opcode = 0x60 then op_60 s
      else if opcode = 0x61 then via AdrIdx Adc s
      else if opcode = 0x62 then op_62 s
      else if opcode = 0x63 then via AdrSr Adc s
      else if opcode = 0x64 then via AdrDp Stz s
      else if opcode = 0x65 then via AdrDp Adc s
      else if opcode = 0x66 then via AdrDp Ror s
      else if opcode = 0x67 then via AdrIdl Adc s
      else if opcode = 0x68 then op_68 s
      else if opcode = 0x69 then via (AdrImm False) Adc s
      else if opcode = 0x6a then op_6a s
      else if opcode = 0x6b then op_6b s
      else if opcode = 0x6c then op_6c s
      else if opcode = 0x6d then via AdrAbs Adc s
      else if opcode = 0x6e then via AdrAbs Ror s
      else if opcode = 0x6f then via AdrAbl Adc s
      else if opcode = 0x70 then DoBranch (m_v s) s
      else if opcode = 0x71 then via (AdrIdy False) Adc s
      else if opcode = 0x72 then via AdrIdp Adc s
      else if opcode = 0x73 then via AdrIsy Adc s
      else if opcode = 0x74 then via AdrDpx Stz s
      else if opcode = 0x75 then via AdrDpx Adc s
      else if opcode = 0x76 then via AdrDpx Ror s
      else if opcode = 0x77 then via AdrIly Adc s
      else if opcode = 0x78 then (AdrImp s)\<lparr>m_i := True\<rparr>
      else if opcode = 0x79 then via (AdrAby False) Adc s
      else if opcode = 0x7a then op_7a s
      else if opcode = 0x7b then op_7b s
      else if opcode = 0x7c then op_7c s
      else if opcode = 0x7d then via (AdrAbx False) Adc s
      else if opcode = 0x7e then via (AdrAbx True) Ror s
      else if opcode = 0x7f then via AdrAlx Adc s
      else if opcode = 0x80 then DoBranch True s
      else if opcode = 0x81 then via AdrIdx Sta s
      else if opcode = 0x82 then op_82 s
      else if opcode = 0x83 then via AdrSr Sta s
      else if opcode = 0x84 then via AdrDp Sty s
      else if opcode = 0x85 then via AdrDp Sta s
      else if opcode = 0x86 then via AdrDp Stx s
      else if opcode = 0x87 then via AdrIdl Sta s
      else if opcode = 0x88 then op_88 s
      else if opcode = 0x89 then op_89 s
      else if opcode = 0x8a then op_8a s
      else if opcode = 0x8b then op_8b s
      else if opcode = 0x8c then via AdrAbs Sty s
      else if opcode = 0x8d then via AdrAbs Sta s
      else if opcode = 0x8e then via AdrAbs Stx s
      else if opcode = 0x8f then via AdrAbl Sta s
      else if opcode = 0x90 then DoBranch (\<not> m_c s) s
      else if opcode = 0x91 then via (AdrIdy True) Sta s
      else if opcode = 0x92 then via AdrIdp Sta s
      else if opcode = 0x93 then via AdrIsy Sta s
      else if opcode = 0x94 then via AdrDpx Sty s
      else if opcode = 0x95 then via AdrDpx Sta s
      else if opcode = 0x96 then via AdrDpy Stx s
      else if opcode = 0x97 then via AdrIly Sta s
      else if opcode = 0x98 then op_98 s
      else if opcode = 0x99 then via (AdrAby True) Sta s
      else if opcode = 0x9a then op_9a s
      else if opcode = 0x9b then op_9b s
      else if opcode = 0x9c then via AdrAbs Stz s
      else if opcode = 0x9d then via (AdrAbx True) Sta s
      else if opcode = 0x9e then via (AdrAbx True) Stz s
      else if opcode = 0x9f then via AdrAlx Sta s
      else if opcode = 0xa0 then via (AdrImm True) Ldy s
      else if opcode = 0xa1 then via AdrIdx Lda s
      else if opcode = 0xa2 then via (AdrImm True) Ldx s
      else if opcode = 0xa3 then via AdrSr Lda s
      else if opcode = 0xa4 then via AdrDp Ldy s
      else if opcode = 0xa5 then via AdrDp Lda s
      else if opcode = 0xa6 then via AdrDp Ldx s
      else if opcode = 0xa7 then via AdrIdl Lda s
      else if opcode = 0xa8 then op_a8 s
      else if opcode = 0xa9 then via (AdrImm False) Lda s
      else if opcode = 0xaa then op_aa s
      else if opcode = 0xab then op_ab s
      else if opcode = 0xac then via AdrAbs Ldy s
      else if opcode = 0xad then via AdrAbs Lda s
      else if opcode = 0xae then via AdrAbs Ldx s
      else if opcode = 0xaf then via AdrAbl Lda s
      else if opcode = 0xb0 then DoBranch (m_c s) s
      else if opcode = 0xb1 then via (AdrIdy False) Lda s
      else if opcode = 0xb2 then via AdrIdp Lda s
      else if opcode = 0xb3 then via AdrIsy Lda s
      else if opcode = 0xb4 then via AdrDpx Ldy s
      else if opcode = 0xb5 then via AdrDpx Lda s
      else if opcode = 0xb6 then via AdrDpy Ldx s
      else if opcode = 0xb7 then via AdrIly Lda s
      else if opcode = 0xb8 then (AdrImp s)\<lparr>m_v := False\<rparr>
      else if opcode = 0xb9 then via (AdrAby False) Lda s
      else if opcode = 0xba then op_ba s
      else if opcode = 0xbb then op_bb s
      else if opcode = 0xbc then via (AdrAbx False) Ldy s
      else if opcode = 0xbd then via (AdrAbx False) Lda s
      else if opcode = 0xbe then via (AdrAby False) Ldx s
      else if opcode = 0xbf then via AdrAlx Lda s
      else if opcode = 0xc0 then via (AdrImm True) Cpy s
      else if opcode = 0xc1 then via AdrIdx Cmp s
      else if opcode = 0xc2 then op_c2 s
      else if opcode = 0xc3 then via AdrSr Cmp s
      else if opcode = 0xc4 then via AdrDp Cpy s
      else if opcode = 0xc5 then via AdrDp Cmp s
      else if opcode = 0xc6 then via AdrDp Dec s
      else if opcode = 0xc7 then via AdrIdl Cmp s
      else if opcode = 0xc8 then op_c8 s
      else if opcode = 0xc9 then via (AdrImm False) Cmp s
      else if opcode = 0xca then op_ca s
      else if opcode = 0xcb then op_cb s
      else if opcode = 0xcc then via AdrAbs Cpy s
      else if opcode = 0xcd then via AdrAbs Cmp s
      else if opcode = 0xce then via AdrAbs Dec s
      else if opcode = 0xcf then via AdrAbl Cmp s
      else if opcode = 0xd0 then DoBranch (\<not> m_z s) s
      else if opcode = 0xd1 then via (AdrIdy False) Cmp s
      else if opcode = 0xd2 then via AdrIdp Cmp s
      else if opcode = 0xd3 then via AdrIsy Cmp s
      else if opcode = 0xd4 then op_d4 s
      else if opcode = 0xd5 then via AdrDpx Cmp s
      else if opcode = 0xd6 then via AdrDpx Dec s
      else if opcode = 0xd7 then via AdrIly Cmp s
      else if opcode = 0xd8 then (AdrImp s)\<lparr>m_d := False\<rparr>
      else if opcode = 0xd9 then via (AdrAby False) Cmp s
      else if opcode = 0xda then op_da s
      else if opcode = 0xdb then op_db s
      else if opcode = 0xdc then op_dc s
      else if opcode = 0xdd then via (AdrAbx False) Cmp s
      else if opcode = 0xde then via (AdrAbx True) Dec s
      else if opcode = 0xdf then via AdrAlx Cmp s
      else if opcode = 0xe0 then via (AdrImm True) Cpx s
      else if opcode = 0xe1 then via AdrIdx Sbc s
      else if opcode = 0xe2 then op_e2 s
      else if opcode = 0xe3 then via AdrSr Sbc s
      else if opcode = 0xe4 then via AdrDp Cpx s
      else if opcode = 0xe5 then via AdrDp Sbc s
      else if opcode = 0xe6 then via AdrDp Inc s
      else if opcode = 0xe7 then via AdrIdl Sbc s
      else if opcode = 0xe8 then op_e8 s
      else if opcode = 0xe9 then via (AdrImm False) Sbc s
      else if opcode = 0xea then op_ea s
      else if opcode = 0xeb then op_eb s
      else if opcode = 0xec then via AdrAbs Cpx s
      else if opcode = 0xed then via AdrAbs Sbc s
      else if opcode = 0xee then via AdrAbs Inc s
      else if opcode = 0xef then via AdrAbl Sbc s
      else if opcode = 0xf0 then DoBranch (m_z s) s
      else if opcode = 0xf1 then via (AdrIdy False) Sbc s
      else if opcode = 0xf2 then via AdrIdp Sbc s
      else if opcode = 0xf3 then via AdrIsy Sbc s
      else if opcode = 0xf4 then op_f4 s
      else if opcode = 0xf5 then via AdrDpx Sbc s
      else if opcode = 0xf6 then via AdrDpx Inc s
      else if opcode = 0xf7 then via AdrIly Sbc s
      else if opcode = 0xf8 then (AdrImp s)\<lparr>m_d := True\<rparr>
      else if opcode = 0xf9 then via (AdrAby False) Sbc s
      else if opcode = 0xfa then op_fa s
      else if opcode = 0xfb then op_fb s
      else if opcode = 0xfc then op_fc s
      else if opcode = 0xfd then via (AdrAbx False) Sbc s
      else if opcode = 0xfe then via (AdrAbx True) Inc s
      else if opcode = 0xff then via AdrAlx Sbc s
      else AdrImp s)"

section \<open>Reset and the top-level step (cpu.cpp lines 124-231)\<close>

definition Reset :: "bool \<Rightarrow> 'h cpu \<Rightarrow> 'h cpu" where
  "Reset hard s =
     (let s1 = (if hard
                then s\<lparr>m_a := 0, m_x := 0, m_y := 0, m_sp := 0, m_pc := 0, m_dp := 0,
                       m_k := 0, m_db := 0,
                       m_c := False, m_z := False, m_v := False, m_n := False,
                       m_i := False, m_d := False, m_xf := False, m_mf := False,
                       m_e := False, m_irqWanted := False\<rparr>
                else s)
      in s1\<lparr>m_waiting := False, m_stopped := False, m_nmiWanted := False,
             m_intWanted := False, m_resetWanted := True\<rparr>)"

text \<open>
  The constructor: the member initialisers of \<open>PImpl\<close>, then \<open>Reset(true)\<close>. \<open>h0\<close> is
  the state of the world behind the callbacks when the core is created.
\<close>

definition Cpu :: "(32 word \<Rightarrow> 'h \<Rightarrow> 8 word \<times> 'h) \<Rightarrow> (32 word \<Rightarrow> 8 word \<Rightarrow> 'h \<Rightarrow> 'h) \<Rightarrow>
    (bool \<Rightarrow> 'h \<Rightarrow> 'h) \<Rightarrow> 'h \<Rightarrow> 'h cpu" where
  "Cpu readHandler writeHandler idleHandler h0 =
     Reset True
       \<lparr>m_readHandler = readHandler, m_writeHandler = writeHandler,
        m_idleHandler = idleHandler,
        m_a = 0, m_x = 0, m_y = 0, m_sp = 0, m_pc = 0, m_dp = 0, m_k = 0, m_db = 0,
        m_c = False, m_z = False, m_v = False, m_n = False,
        m_i = False, m_d = False, m_xf = False, m_mf = False, m_e = False,
        m_waiting = False, m_stopped = False,
        m_irqWanted = False, m_nmiWanted = False, m_intWanted = False,
        m_resetWanted = True, host = h0, trace = []\<rparr>"

text \<open>
  \<open>Read(0x100 | (m_sp-- & 0xff))\<close>: the address is formed from the stack pointer
  before the decrement.
\<close>

definition resetStackRead :: "'h cpu \<Rightarrow> 'h cpu" where
  "resetStackRead s =
     snd (Read (0x100 OR (ucast (m_sp s) AND 0xff)) (s\<lparr>m_sp := m_sp s - 1\<rparr>))"

definition RunOpcode :: "'h cpu \<Rightarrow> 'h cpu" where
  "RunOpcode s =
     (if m_resetWanted s
      then (let s0 = s\<lparr>m_resetWanted := False\<rparr>;
                s1 = snd (Read (pcAddr s0) s0);
                s2 = Idle s1;
                s3 = resetStackRead s2;
                s4 = resetStackRead s3;
                s5 = resetStackRead s4;
                s6 = s5\<lparr>m_sp := (m_sp s5 AND 0xff) OR 0x100\<rparr>;
                s7 = s6\<lparr>m_e := True, m_i := True, m_d := False\<rparr>;
                s8 = SetFlags (GetFlags s7) s7;
                s9 = s8\<lparr>m_k := 0\<rparr>;
                (w, s10) = ReadWord 0xfffc 0xfffd False s9
            in s10\<lparr>m_pc := w\<rparr>)
      else if m_stopped s then IdleWait s
      else if m_waiting s
      then (if m_irqWanted s \<or> m_nmiWanted s
            then Idle (CheckInterrupts (Idle (s\<lparr>m_waiting := False\<rparr>)))
            else IdleWait s)
      else (let s1 = CheckInterrupts s
            in if m_intWanted s1
               then DoInterrupt (snd (Read (pcAddr s1) s1))
               else (let (opcode, s2) = ReadOpcode s1 in DoOpcode opcode s2)))"

definition Nmi :: "'h cpu \<Rightarrow> 'h cpu" where
  "Nmi s = s\<lparr>m_nmiWanted := True\<rparr>"

definition SetIrq :: "bool \<Rightarrow> 'h cpu \<Rightarrow> 'h cpu" where
  "SetIrq state s = s\<lparr>m_irqWanted := state\<rparr>"

section \<open>States a host can reach\<close>

text \<open>
  The host creates the core and then calls the four public operations in any order.
\<close>

inductive reachable :: "'h cpu \<Rightarrow> bool" where
  created: "reachable (Cpu readHandler writeHandler idleHandler h0)"
| after_Reset: "reachable s \<Longrightarrow> reachable (Reset hard s)"
| after_RunOpcode: "reachable s \<Longrightarrow> reachable (RunOpcode s)"
| after_Nmi: "reachable s \<Longrightarrow> reachable (Nmi s)"
| after_SetIrq: "reachable s \<Longrightarrow> reachable (SetIrq state s)"

text \<open>
  The three mode flags, and the invariant that emulation mode pins both register widths
  to 8 bits.
\<close>

definition modes :: "'h cpu \<Rightarrow> bool \<times> bool \<times> bool" where
  "modes s = (m_e s, m_mf s, m_xf s)"

definition modeInv :: "'h cpu \<Rightarrow> bool" where
  "modeInv s = (m_e s \<longrightarrow> m_mf s \<and> m_xf s)"

section \<open>Observations on the bus trace\<close>

text \<open>The bus events that a transition adds to the trace.\<close>

definition emitted :: "'h cpu \<Rightarrow> 'h cpu \<Rightarrow> event list" where
  "emitted s s' = drop (length (trace s)) (trace s')"

text \<open>
  The operand of the instruction that has just run is the last byte read (8-bit
  operand) or the word formed by the last two bytes read, low byte first (16-bit).
\<close>

fun readVal :: "event \<Rightarrow> 8 word" where
  "readVal (EvRead a v) = v"
| "readVal (EvWrite a v) = 0"
| "readVal (EvIdle w) = 0"

definition operand8 :: "event list \<Rightarrow> 8 word" where
  "operand8 tr = (case rev tr of [] \<Rightarrow> 0 | e # es \<Rightarrow> readVal e)"

definition operand16 :: "event list \<Rightarrow> 16 word" where
  "operand16 tr =
     (case rev tr of
        hi # lo # es \<Rightarrow> ucast (readVal lo) OR push_bit 8 (ucast (readVal hi))
      | _ \<Rightarrow> 0)"

text \<open>The read callback answers from a memory that nothing changes.\<close>

definition readsFrom :: "'h cpu \<Rightarrow> (32 word \<Rightarrow> 8 word) \<Rightarrow> bool" where
  "readsFrom s mem = (\<forall>a h. fst (m_readHandler s a h) = mem a)"

text \<open>Valid binary-coded decimal: every nibble is a digit.\<close>

definition isBcd8 :: "8 word \<Rightarrow> bool" where
  "isBcd8 x = (x AND 0x0f \<le> 0x09 \<and> x AND 0xf0 \<le> 0x90)"

definition isBcd16 :: "16 word \<Rightarrow> bool" where
  "isBcd16 x =
     (x AND 0x000f \<le> 0x0009 \<and> x AND 0x00f0 \<le> 0x0090 \<and>
      x AND 0x0f00 \<le> 0x0900 \<and> x AND 0xf000 \<le> 0x9000)"

section \<open>Concrete machines\<close>

text \<open>
  A core wired to a read-only memory given as a list of \<open>(address, byte)\<close> pairs;
  every other address reads 0, writes are dropped, idle cycles do nothing.
\<close>

definition prog :: "(32 word \<times> 8 word) list \<Rightarrow> 32 word \<Rightarrow> 8 word" where
  "prog xs a = (case map_of xs a of Some v \<Rightarrow> v | None \<Rightarrow> 0)"

definition romCpu :: "(32 word \<Rightarrow> 8 word) \<Rightarrow> unit cpu" where
  "romCpu mem = Cpu (\<lambda>a h. (mem a, h)) (\<lambda>a v h. h) (\<lambda>w h. h) ()"

text \<open>The reset vector points to \<open>$8000\<close>, where the program starts.\<close>

definition romAt8000 :: "8 word list \<Rightarrow> 32 word \<Rightarrow> 8 word" where
  "romAt8000 bytes =
     prog ([(0xFFFC, 0x00), (0xFFFD, 0x80)] @
           zip (map (\<lambda>i. 0x8000 + of_nat i) [0 ..< length bytes]) bytes)"

text \<open>
  \<open>JML $FF8000\<close> at \<open>$8000\<close>; in bank \<open>$FF\<close>: \<open>LDX #$01\<close>, \<open>JMP ($FFFF,X)\<close>.
\<close>

definition romJmpX :: "32 word \<Rightarrow> 8 word" where
  "romJmpX = prog [(0xFFFC, 0x00), (0xFFFD, 0x80),
     (0x8000, 0x5C), (0x8001, 0x00), (0x8002, 0x80), (0x8003, 0xFF),
     (0xFF8000, 0xA2), (0xFF8001, 0x01),
     (0xFF8002, 0x7C), (0xFF8003, 0xFF), (0xFF8004, 0xFF)]"

text \<open>The core after its reset sequence, with a program at \<open>$8000\<close>.\<close>

definition bootCpu :: "8 word list \<Rightarrow> unit cpu" where
  "bootCpu bytes = RunOpcode (romCpu (romAt8000 bytes))"

text \<open>The core parked by \<open>STP\<close>, the first instruction of its program.\<close>

definition stoppedCpu :: "unit cpu" where
  "stoppedCpu = RunOpcode (bootCpu [0xDB])"

text \<open>The last \<open>n\<close> events of a trace.\<close>

definition lastEvents :: "nat \<Rightarrow> event list \<Rightarrow> event list" where
  "lastEvents n tr = rev (take n (rev tr))"

text \<open>
  The core after its reset sequence (emulation mode, I = 1), with the IRQ line raised
  and an NMI edge latched.
\<close>

definition pendingCpu :: "unit cpu" where
  "pendingCpu = Nmi (SetIrq True (bootCpu []))"

text \<open>The core after its reset sequence and the fetch of the first opcode byte.\<close>

definition fetched :: "8 word list \<Rightarrow> unit cpu" where
  "fetched bytes = snd (ReadOpcode (bootCpu bytes))"

section \<open>Basic facts\<close>

lemmas bus_defs = Read_def Write_def Idle_def IdleWait_def CheckInterrupts_def pcAddr_def
  ReadOpcode_def ReadOpcodeWord_def ReadWord_def WriteWord_def PushByte_def PullByte_def
  PushWord_def PullWord_def

lemma lt8: "(n::nat) < 8 \<longleftrightarrow> n \<in> {0, 1, 2, 3, 4, 5, 6, 7}"
  by auto

lemma and_pow2: "(f::'a::len word) AND 2 ^ k = (if bit f k then 2 ^ k else 0)"
  by (rule bit_word_eqI) (auto simp: bit_simps)

lemma mask_if:
  "(if (f::8 word) AND 0x80 \<noteq> 0 then 0x80 else 0) = f AND 0x80"
  "(if (f::8 word) AND 0x40 \<noteq> 0 then 0x40 else 0) = f AND 0x40"
  "(if (f::8 word) AND 0x20 \<noteq> 0 then 0x20 else 0) = f AND 0x20"
  "(if (f::8 word) AND 0x10 \<noteq> 0 then 0x10 else 0) = f AND 0x10"
  "(if (f::8 word) AND 0x08 \<noteq> 0 then 0x08 else 0) = f AND 0x08"
  "(if (f::8 word) AND 0x04 \<noteq> 0 then 0x04 else 0) = f AND 0x04"
  "(if (f::8 word) AND 0x02 \<noteq> 0 then 0x02 else 0) = f AND 0x02"
  "(if (f::8 word) AND 0x01 \<noteq> 0 then 0x01 else 0) = f AND 0x01"
  using and_pow2[of f 7] and_pow2[of f 6] and_pow2[of f 5] and_pow2[of f 4]
     and_pow2[of f 3] and_pow2[of f 2] and_pow2[of f 1] and_pow2[of f 0]
  by simp_all

lemma byte_bits:
  "(f AND 0x80) OR (f AND 0x40) OR (f AND 0x20) OR (f AND 0x10) OR
   (f AND 0x08) OR (f AND 0x04) OR (f AND 0x02) OR (f AND 0x01) = (f::8 word)"
  by (rule bit_word_eqI) (auto simp: bit_simps lt8)

lemma byte_bits_e:
  "(f AND 0x80) OR (f AND 0x40) OR 0x20 OR 0x10 OR
   (f AND 0x08) OR (f AND 0x04) OR (f AND 0x02) OR (f AND 0x01) = (f::8 word) OR 0x30"
  by (rule bit_word_eqI) (auto simp: bit_simps lt8)

lemma SetFlags_flags:
  "m_n (SetFlags f s) = (f AND 0x80 \<noteq> 0)"
  "m_v (SetFlags f s) = (f AND 0x40 \<noteq> 0)"
  "m_mf (SetFlags f s) = (if m_e s then True else f AND 0x20 \<noteq> 0)"
  "m_xf (SetFlags f s) = (if m_e s then True else f AND 0x10 \<noteq> 0)"
  "m_d (SetFlags f s) = (f AND 0x08 \<noteq> 0)"
  "m_i (SetFlags f s) = (f AND 0x04 \<noteq> 0)"
  "m_z (SetFlags f s) = (f AND 0x02 \<noteq> 0)"
  "m_c (SetFlags f s) = (f AND 0x01 \<noteq> 0)"
  "m_e (SetFlags f s) = m_e s"
  by (simp_all add: SetFlags_def Let_def)

lemma neg16_num:
  "(- 1 :: 16 word) = 0xFFFF" "(- 2 :: 16 word) = 0xFFFE" "(- 3 :: 16 word) = 0xFFFD"
  by simp_all

lemma neg16:
  "(ucast (- 1::16 word) :: 32 word) = 0xFFFF"
  "(ucast (- 2::16 word) :: 32 word) = 0xFFFE"
  "(- 3::16 word) AND 0xff = 0xFD"
  by (simp_all add: neg16_num)

section \<open>The flag byte\<close>

text \<open>
  Claim C6. For every flag byte \<open>f\<close>, \<open>SetFlags(f)\<close> followed by \<open>GetFlags()\<close>
  returns exactly \<open>f\<close> in native mode (E = 0); in emulation mode (E = 1) it returns
  \<open>f\<close> with bits 5 and 4 forced to 1 and every other bit as in \<open>f\<close>.
\<close>

theorem SetFlags_GetFlags_roundtrip:
  "GetFlags (SetFlags f s) = (if m_e s then f OR 0x30 else f)"
proof (cases "m_e s")
  case True
  then have "GetFlags (SetFlags f s) =
      (f AND 0x80) OR (f AND 0x40) OR 0x20 OR 0x10 OR
      (f AND 0x08) OR (f AND 0x04) OR (f AND 0x02) OR (f AND 0x01)"
    by (simp add: GetFlags_def SetFlags_flags mask_if split del: if_split cong: if_cong)
  with True show ?thesis by (simp only: byte_bits_e if_True)
next
  case False
  then have "GetFlags (SetFlags f s) =
      (f AND 0x80) OR (f AND 0x40) OR (f AND 0x20) OR (f AND 0x10) OR
      (f AND 0x08) OR (f AND 0x04) OR (f AND 0x02) OR (f AND 0x01)"
    by (simp add: GetFlags_def SetFlags_flags mask_if split del: if_split cong: if_cong)
  with False show ?thesis by (simp only: byte_bits if_False)
qed

theorem SetFlags_GetFlags_roundtrip_witness:
  "GetFlags (SetFlags 0xC3 (bootCpu [])) = 0xF3 \<and>
   GetFlags (SetFlags 0xC3 (Reset True (bootCpu []))) = 0xC3"
  using SetFlags_GetFlags_roundtrip [of "0xC3" "bootCpu []"]
        SetFlags_GetFlags_roundtrip [of "0xC3" "Reset True (bootCpu [])"]
  by code_simp

section \<open>Reset\<close>

text \<open>
  Claim C5. After \<open>Reset(hard = true)\<close> the first \<open>RunOpcode\<close> makes one dummy read at
  the program address (\<open>$000000\<close>), one idle cycle and three stack reads that step the
  stack pointer down (\<open>$0100\<close>, \<open>$01FF\<close>, \<open>$01FE\<close>), then reads the reset vector, and
  ends with SP = \<open>$01FD\<close>, E = 1, I = 1, D = 0, M = 1, X = 1, K = 0 and PC equal to the
  little-endian word read at \<open>$00FFFC/$00FFFD\<close>.
\<close>

theorem reset_sequence:
  "let s' = RunOpcode (Reset True s) in
   \<exists>v0 v1 v2 v3 lo hi.
     trace s' = trace s @ [EvRead 0 v0, EvIdle False, EvRead 0x100 v1, EvRead 0x1FF v2,
                           EvRead 0x1FE v3, EvRead 0xFFFC lo, EvRead 0xFFFD hi]
     \<and> m_pc s' = ucast lo OR push_bit 8 (ucast hi)
     \<and> m_sp s' = 0x01FD \<and> m_e s' \<and> m_i s' \<and> \<not> m_d s' \<and> m_mf s' \<and> m_xf s' \<and> m_k s' = 0"
  by (simp add: RunOpcode_def Reset_def resetStackRead_def bus_defs SetFlags_def GetFlags_def
      Let_def split_def neg16)

theorem reset_sequence_witness:
  "trace (RunOpcode (Reset True (romCpu (romAt8000 [])))) =
     [EvRead 0 0, EvIdle False, EvRead 0x100 0, EvRead 0x1FF 0, EvRead 0x1FE 0,
      EvRead 0xFFFC 0x00, EvRead 0xFFFD 0x80]
   \<and> m_pc (RunOpcode (Reset True (romCpu (romAt8000 [])))) = 0x8000
   \<and> m_sp (RunOpcode (Reset True (romCpu (romAt8000 [])))) = 0x01FD"
  using reset_sequence [of "romCpu (romAt8000 [])"]
  by code_simp

text \<open>
  Claim C10, as the code has it. For every state, \<open>Reset(hard = false)\<close> followed by the
  first \<open>RunOpcode\<close> leaves A, DP, DB, the flags N, V, Z, C, the low bytes of X and Y, the
  IRQ line latch and the three callbacks unchanged. It changes SP (low byte stepped down
  by 3, high byte forced to \<open>$01\<close>), PC (loaded from the reset vector), K and D (cleared),
  E, I, M and X (set) and the upper bytes of X and Y (cleared), and it also clears the
  waiting, stopped, NMI-pending and interrupt-pending latches and the reset request. On
  the bus it makes the seven callbacks of the reset sequence and no other.
\<close>

theorem soft_reset_frame:
  "let s' = RunOpcode (Reset False s) in
     m_a s' = m_a s \<and> m_dp s' = m_dp s \<and> m_db s' = m_db s \<and>
     m_n s' = m_n s \<and> m_v s' = m_v s \<and> m_z s' = m_z s \<and> m_c s' = m_c s \<and>
     m_sp s' = ((m_sp s - 3) AND 0xff) OR 0x100 \<and>
     m_x s' = m_x s AND 0xff \<and> m_y s' = m_y s AND 0xff \<and>
     m_e s' \<and> m_i s' \<and> \<not> m_d s' \<and> m_mf s' \<and> m_xf s' \<and> m_k s' = 0 \<and>
     m_pc s' = operand16 (trace s') \<and>
     \<not> m_waiting s' \<and> \<not> m_stopped s' \<and> \<not> m_nmiWanted s' \<and> \<not> m_intWanted s' \<and>
     \<not> m_resetWanted s' \<and> m_irqWanted s' = m_irqWanted s \<and>
     m_readHandler s' = m_readHandler s \<and> m_writeHandler s' = m_writeHandler s \<and>
     m_idleHandler s' = m_idleHandler s \<and>
     (\<exists>v0 v1 v2 v3 lo hi.
        trace s' = trace s @
          [EvRead (pcAddr s) v0, EvIdle False,
           EvRead (0x100 OR (ucast (m_sp s) AND 0xff)) v1,
           EvRead (0x100 OR (ucast (m_sp s - 1) AND 0xff)) v2,
           EvRead (0x100 OR (ucast (m_sp s - 2) AND 0xff)) v3,
           EvRead 0xFFFC lo, EvRead 0xFFFD hi])"
  by (simp add: RunOpcode_def Reset_def resetStackRead_def bus_defs SetFlags_def GetFlags_def
      operand16_def Let_def split_def)

theorem soft_reset_frame_witness:
  "m_a (RunOpcode (Reset False ((bootCpu [])\<lparr>m_a := 0x1234, m_n := True, m_c := True\<rparr>))) = 0x1234
   \<and> m_n (RunOpcode (Reset False ((bootCpu [])\<lparr>m_a := 0x1234, m_n := True, m_c := True\<rparr>)))
   \<and> m_c (RunOpcode (Reset False ((bootCpu [])\<lparr>m_a := 0x1234, m_n := True, m_c := True\<rparr>)))
   \<and> m_sp (RunOpcode (Reset False ((bootCpu [])\<lparr>m_a := 0x1234, m_n := True, m_c := True\<rparr>))) = 0x01FA
   \<and> \<not> m_stopped (RunOpcode (Reset False ((bootCpu [])\<lparr>m_a := 0x1234, m_n := True, m_c := True\<rparr>)))"
  using soft_reset_frame [of "(bootCpu [])\<lparr>m_a := 0x1234, m_n := True, m_c := True\<rparr>"]
  by code_simp

text \<open>
  The claim as the specification states it fails: the soft reset sequence also changes
  the stopped latch of the core parked by \<open>STP\<close>, the waiting latch of the core parked by
  \<open>WAI\<close>, and a latched NMI edge.
\<close>

theorem soft_reset_clears_latches:
  "m_stopped stoppedCpu \<and> \<not> m_stopped (RunOpcode (Reset False stoppedCpu)) \<and>
   m_waiting (RunOpcode (bootCpu [0xCB])) \<and>
   \<not> m_waiting (RunOpcode (Reset False (RunOpcode (bootCpu [0xCB])))) \<and>
   m_nmiWanted (Nmi (bootCpu [])) \<and> \<not> m_nmiWanted (RunOpcode (Reset False (Nmi (bootCpu []))))"
  by code_simp

section \<open>STP\<close>

text \<open>
  Claim C4, as the code has it. \<open>STP\<close> (\<open>$DB\<close>) sets the stopped state. While the core is
  stopped, every \<open>RunOpcode\<close>, \<open>Nmi\<close> and \<open>SetIrq\<close> leaves it stopped. Every \<open>Reset\<close>, hard
  or soft, clears the stopped state.
\<close>

theorem stopped_until_reset:
  "m_stopped (DoOpcode 0xdb s) \<and>
   (m_stopped s \<longrightarrow> m_stopped (RunOpcode s) \<and> m_stopped (Nmi s) \<and> m_stopped (SetIrq state s)) \<and>
   \<not> m_stopped (Reset hard s)"
  by (simp add: DoOpcode_def op_db_def RunOpcode_def resetStackRead_def bus_defs SetFlags_def
      GetFlags_def Nmi_def SetIrq_def Reset_def Let_def split_def)

theorem stopped_until_reset_witness:
  "m_stopped stoppedCpu \<and> m_stopped (RunOpcode stoppedCpu) \<and> m_stopped (Nmi stoppedCpu) \<and>
   m_stopped (SetIrq True stoppedCpu) \<and> \<not> m_stopped (Reset True stoppedCpu)"
  using stopped_until_reset [of stoppedCpu True True]
  by code_simp

text \<open>
  The claim as the specification states it fails: a soft reset clears the stopped state
  of the core parked by \<open>STP\<close>.
\<close>

theorem soft_reset_clears_stopped:
  "m_stopped stoppedCpu \<and> \<not> m_stopped (Reset False stoppedCpu)"
  by code_simp

section \<open>Mode flags are left alone by almost everything\<close>

lemma modes_upd [simp]:
  "modes (s\<lparr>host := h\<rparr>) = modes s" "modes (s\<lparr>trace := t\<rparr>) = modes s"
  "modes (s\<lparr>m_a := a\<rparr>) = modes s" "modes (s\<lparr>m_x := x\<rparr>) = modes s"
  "modes (s\<lparr>m_y := y\<rparr>) = modes s" "modes (s\<lparr>m_sp := sp\<rparr>) = modes s"
  "modes (s\<lparr>m_pc := pc\<rparr>) = modes s" "modes (s\<lparr>m_dp := dp\<rparr>) = modes s"
  "modes (s\<lparr>m_k := k\<rparr>) = modes s" "modes (s\<lparr>m_db := db\<rparr>) = modes s"
  "modes (s\<lparr>m_c := b\<rparr>) = modes s" "modes (s\<lparr>m_z := b\<rparr>) = modes s"
  "modes (s\<lparr>m_v := b\<rparr>) = modes s" "modes (s\<lparr>m_n := b\<rparr>) = modes s"
  "modes (s\<lparr>m_i := b\<rparr>) = modes s" "modes (s\<lparr>m_d := b\<rparr>) = modes s"
  "modes (s\<lparr>m_waiting := b\<rparr>) = modes s" "modes (s\<lparr>m_stopped := b\<rparr>) = modes s"
  "modes (s\<lparr>m_irqWanted := b\<rparr>) = modes s" "modes (s\<lparr>m_nmiWanted := b\<rparr>) = modes s"
  "modes (s\<lparr>m_intWanted := b\<rparr>) = modes s" "modes (s\<lparr>m_resetWanted := b\<rparr>) = modes s"
  by (simp_all add: modes_def)

lemma modes_bus [simp]:
  "modes (snd (Read a s)) = modes s"
  "modes (Write a v s) = modes s"
  "modes (Idle s) = modes s"
  "modes (IdleWait s) = modes s"
  "modes (CheckInterrupts s) = modes s"
  by (simp_all add: Read_def Write_def Idle_def IdleWait_def CheckInterrupts_def split_def Let_def)

lemma modes_if [simp]: "modes (if b then s else t) = (if b then modes s else modes t)"
  by simp

lemma modes_fetch [simp]:
  "modes (snd (ReadOpcode s)) = modes s"
  "modes (snd (ReadOpcodeWord ic s)) = modes s"
  "modes (SetZnFlags v b s) = modes s"
  "modes (snd (ReadWord l h ic s)) = modes s"
  "modes (WriteWord l h v r ic s) = modes s"
  "modes (PushByte b8 s) = modes s"
  "modes (snd (PullByte s)) = modes s"
  by (simp_all add: ReadOpcode_def ReadOpcodeWord_def SetZnFlags_def ReadWord_def WriteWord_def
      PushByte_def PullByte_def Let_def split_def)

lemma modes_stack [simp]:
  "modes (PushWord w ic s) = modes s"
  "modes (snd (PullWord ic s)) = modes s"
  "modes (DoBranch c s) = modes s"
  "modes (DoInterrupt s) = modes s"
  "modes (AdrImp s) = modes s"
  by (simp_all add: PushWord_def PullWord_def DoBranch_def DoInterrupt_def AdrImp_def
      Let_def split_def)

lemma modes_adr [simp]:
  "modes (snd (AdrImm xFlag s)) = modes s"
  "modes (dpIdle s) = modes s"
  "modes (snd (AdrDp s)) = modes s"
  "modes (snd (AdrDpx s)) = modes s"
  "modes (snd (AdrDpy s)) = modes s"
  "modes (snd (AdrIdp s)) = modes s"
  "modes (snd (AdrIdx s)) = modes s"
  "modes (snd (AdrIdy w s)) = modes s"
  "modes (snd (AdrIdl s)) = modes s"
  "modes (snd (AdrIly s)) = modes s"
  "modes (snd (AdrSr s)) = modes s"
  "modes (snd (AdrIsy s)) = modes s"
  "modes (snd (AdrAbs s)) = modes s"
  "modes (snd (AdrAbx w s)) = modes s"
  "modes (snd (AdrAby w s)) = modes s"
  "modes (snd (AdrAbl s)) = modes s"
  "modes (snd (AdrAlx s)) = modes s"
  by (simp_all add: AdrImm_def dpIdle_def AdrDp_def AdrDpx_def AdrDpy_def AdrIdp_def AdrIdx_def
     AdrIdy_def AdrIdl_def AdrIly_def AdrSr_def AdrIsy_def AdrAbs_def AdrAbx_def AdrAby_def
     AdrAbl_def AdrAlx_def Let_def split_def)

lemma modes_alu [simp]:
  "modes (And l h s) = modes s"
  "modes (Ora l h s) = modes s"
  "modes (Eor l h s) = modes s"
  "modes (Adc l h s) = modes s"
  "modes (Sbc l h s) = modes s"
  "modes (compare r b l h s) = modes s"
  "modes (Bit l h s) = modes s"
  "modes (Lda l h s) = modes s"
  "modes (Ldx l h s) = modes s"
  "modes (Ldy l h s) = modes s"
  "modes (store r b l h s) = modes s"
  by (simp_all add: And_def Ora_def Eor_def Adc_def Sbc_def compare_def Bit_def Lda_def Ldx_def
      Ldy_def store_def Let_def split_def)

lemma modes_rmw [simp]:
  "modes (Cmp l h s) = modes s"
  "modes (Cpx l h s) = modes s"
  "modes (Cpy l h s) = modes s"
  "modes (Sta l h s) = modes s"
  "modes (Stx l h s) = modes s"
  "modes (Sty l h s) = modes s"
  "modes (Stz l h s) = modes s"
  "modes (Ror l h s) = modes s"
  "modes (Rol l h s) = modes s"
  "modes (Lsr l h s) = modes s"
  "modes (Asl l h s) = modes s"
  "modes (Inc l h s) = modes s"
  "modes (Dec l h s) = modes s"
  "modes (Tsb l h s) = modes s"
  "modes (Trb l h s) = modes s"
  by (simp_all add: Cmp_def Cpx_def Cpy_def Sta_def Stx_def Sty_def Stz_def Ror_def Rol_def
      Lsr_def Asl_def Inc_def Dec_def Tsb_def Trb_def Let_def split_def)

lemma modes_via [simp]:
  "(\<And>s. modes (snd (adr s)) = modes s) \<Longrightarrow> (\<And>l h s. modes (op l h s) = modes s) \<Longrightarrow>
   modes (via adr op s) = modes s"
  by (simp add: via_def split_def Let_def)

lemma modes_ops [simp]:
  "modes (op_00 s) = modes s"
  "modes (op_02 s) = modes s"
  "modes (op_08 s) = modes s"
  "modes (op_0a s) = modes s"
  "modes (op_0b s) = modes s"
  "modes (op_1a s) = modes s"
  "modes (op_1b s) = modes s"
  "modes (op_20 s) = modes s"
  "modes (op_22 s) = modes s"
  "modes (op_2a s) = modes s"
  "modes (op_2b s) = modes s"
  "modes (op_3a s) = modes s"
  "modes (op_3b s) = modes s"
  "modes (op_42 s) = modes s"
  "modes (op_44 s) = modes s"
  "modes (op_48 s) = modes s"
  "modes (op_4a s) = modes s"
  "modes (op_4b s) = modes s"
  "modes (op_4c s) = modes s"
  "modes (op_54 s) = modes s"
  "modes (op_5a s) = modes s"
  "modes (op_5b s) = modes s"
  "modes (op_5c s) = modes s"
  "modes (op_60 s) = modes s"
  "modes (op_62 s) = modes s"
  "modes (op_68 s) = modes s"
  "modes (op_6a s) = modes s"
  "modes (op_6b s) = modes s"
  "modes (op_6c s) = modes s"
  "modes (op_7a s) = modes s"
  "modes (op_7b s) = modes s"
  "modes (op_7c s) = modes s"
  "modes (op_82 s) = modes s"
  "modes (op_88 s) = modes s"
  "modes (op_89 s) = modes s"
  "modes (op_8a s) = modes s"
  "modes (op_8b s) = modes s"
  "modes (op_98 s) = modes s"
  "modes (op_9a s) = modes s"
  "modes (op_9b s) = modes s"
  "modes (op_a8 s) = modes s"
  "modes (op_aa s) = modes s"
  "modes (op_ab s) = modes s"
  "modes (op_ba s) = modes s"
  "modes (op_bb s) = modes s"
  "modes (op_c8 s) = modes s"
  "modes (op_ca s) = modes s"
  "modes (op_cb s) = modes s"
  "modes (op_d4 s) = modes s"
  "modes (op_da s) = modes s"
  "modes (op_db s) = modes s"
  "modes (op_dc s) = modes s"
  "modes (op_e8 s) = modes s"
  "modes (op_ea s) = modes s"
  "modes (op_eb s) = modes s"
  "modes (op_f4 s) = modes s"
  "modes (op_fa s) = modes s"
  "modes (op_fc s) = modes s"
  by (simp_all add: op_00_def op_02_def op_08_def op_0a_def op_0b_def op_1a_def op_1b_def
      op_20_def op_22_def op_2a_def op_2b_def op_3a_def op_3b_def op_42_def op_44_def op_48_def
      op_4a_def op_4b_def op_4c_def op_54_def op_5a_def op_5b_def op_5c_def op_60_def op_62_def
      op_68_def op_6a_def op_6b_def op_6c_def op_7a_def op_7b_def op_7c_def op_82_def op_88_def
      op_89_def op_8a_def op_8b_def op_98_def op_9a_def op_9b_def op_a8_def op_aa_def op_ab_def
      op_ba_def op_bb_def op_c8_def op_ca_def op_cb_def op_d4_def op_da_def op_db_def op_dc_def
      op_e8_def op_ea_def op_eb_def op_f4_def op_fa_def op_fc_def Let_def split_def)

section \<open>The dispatch, opcode by opcode\<close>

lemma DoOpcode_simps:
  "DoOpcode 0x00 s = op_00 s"
  "DoOpcode 0x01 s = via AdrIdx Ora s"
  "DoOpcode 0x02 s = op_02 s"
  "DoOpcode 0x03 s = via AdrSr Ora s"
  "DoOpcode 0x04 s = via AdrDp Tsb s"
  "DoOpcode 0x05 s = via AdrDp Ora s"
  "DoOpcode 0x06 s = via AdrDp Asl s"
  "DoOpcode 0x07 s = via AdrIdl Ora s"
  "DoOpcode 0x08 s = op_08 s"
  "DoOpcode 0x09 s = via (AdrImm False) Ora s"
  "DoOpcode 0x0a s = op_0a s"
  "DoOpcode 0x0b s = op_0b s"
  "DoOpcode 0x0c s = via AdrAbs Tsb s"
  "DoOpcode 0x0d s = via AdrAbs Ora s"
  "DoOpcode 0x0e s = via AdrAbs Asl s"
  "DoOpcode 0x0f s = via AdrAbl Ora s"
  "DoOpcode 0x10 s = DoBranch (\<not> m_n s) s"
  "DoOpcode 0x11 s = via (AdrIdy False) Ora s"
  "DoOpcode 0x12 s = via AdrIdp Ora s"
  "DoOpcode 0x13 s = via AdrIsy Ora s"
  "DoOpcode 0x14 s = via AdrDp Trb s"
  "DoOpcode 0x15 s = via AdrDpx Ora s"
  "DoOpcode 0x16 s = via AdrDpx Asl s"
  "DoOpcode 0x17 s = via AdrIly Ora s"
  "DoOpcode 0x18 s = (AdrImp s)\<lparr>m_c := False\<rparr>"
  "DoOpcode 0x19 s = via (AdrAby False) Ora s"
  "DoOpcode 0x1a s = op_1a s"
  "DoOpcode 0x1b s = op_1b s"
  "DoOpcode 0x1c s = via AdrAbs Trb s"
  "DoOpcode 0x1d s = via (AdrAbx False) Ora s"
  "DoOpcode 0x1e s = via (AdrAbx True) Asl s"
  "DoOpcode 0x1f s = via AdrAlx Ora s"
  "DoOpcode 0x20 s = op_20 s"
  "DoOpcode 0x21 s = via AdrIdx And s"
  "DoOpcode 0x22 s = op_22 s"
  "DoOpcode 0x23 s = via AdrSr And s"
  "DoOpcode 0x24 s = via AdrDp Bit s"
  "DoOpcode 0x25 s = via AdrDp And s"
  "DoOpcode 0x26 s = via AdrDp Rol s"
  "DoOpcode 0x27 s = via AdrIdl And s"
  "DoOpcode 0x28 s = op_28 s"
  "DoOpcode 0x29 s = via (AdrImm False) And s"
  "DoOpcode 0x2a s = op_2a s"
  "DoOpcode 0x2b s = op_2b s"
  "DoOpcode 0x2c s = via AdrAbs Bit s"
  "DoOpcode 0x2d s = via AdrAbs And s"
  "DoOpcode 0x2e s = via AdrAbs Rol s"
  "DoOpcode 0x2f s = via AdrAbl And s"
  "DoOpcode 0x30 s = DoBranch (m_n s) s"
  "DoOpcode 0x31 s = via (AdrIdy False) And s"
  "DoOpcode 0x32 s = via AdrIdp And s"
  "DoOpcode 0x33 s = via AdrIsy And s"
  "DoOpcode 0x34 s = via AdrDpx Bit s"
  "DoOpcode 0x35 s = via AdrDpx And s"
  "DoOpcode 0x36 s = via AdrDpx Rol s"
  "DoOpcode 0x37 s = via AdrIly And s"
  "DoOpcode 0x38 s = (AdrImp s)\<lparr>m_c := True\<rparr>"
  "DoOpcode 0x39 s = via (AdrAby False) And s"
  "DoOpcode 0x3a s = op_3a s"
  "DoOpcode 0x3b s = op_3b s"
  "DoOpcode 0x3c s = via (AdrAbx False) Bit s"
  "DoOpcode 0x3d s = via (AdrAbx False) And s"
  "DoOpcode 0x3e s = via (AdrAbx True) Rol s"
  "DoOpcode 0x3f s = via AdrAlx And s"
  "DoOpcode 0x40 s = op_40 s"
  "DoOpcode 0x41 s = via AdrIdx Eor s"
  "DoOpcode 0x42 s = op_42 s"
  "DoOpcode 0x43 s = via AdrSr Eor s"
  "DoOpcode 0x44 s = op_44 s"
  "DoOpcode 0x45 s = via AdrDp Eor s"
  "DoOpcode 0x46 s = via AdrDp Lsr s"
  "DoOpcode 0x47 s = via AdrIdl Eor s"
  "DoOpcode 0x48 s = op_48 s"
  "DoOpcode 0x49 s = via (AdrImm False) Eor s"
  "DoOpcode 0x4a s = op_4a s"
  "DoOpcode 0x4b s = op_4b s"
  "DoOpcode 0x4c s = op_4c s"
  "DoOpcode 0x4d s = via AdrAbs Eor s"
  "DoOpcode 0x4e s = via AdrAbs Lsr s"
  "DoOpcode 0x4f s = via AdrAbl Eor s"
  "DoOpcode 0x50 s = DoBranch (\<not> m_v s) s"
  "DoOpcode 0x51 s = via (AdrIdy False) Eor s"
  "DoOpcode 0x52 s = via AdrIdp Eor s"
  "DoOpcode 0x53 s = via AdrIsy Eor s"
  "DoOpcode 0x54 s = op_54 s"
  "DoOpcode 0x55 s = via AdrDpx Eor s"
  "DoOpcode 0x56 s = via AdrDpx Lsr s"
  "DoOpcode 0x57 s = via AdrIly Eor s"
  "DoOpcode 0x58 s = (AdrImp s)\<lparr>m_i := False\<rparr>"
  "DoOpcode 0x59 s = via (AdrAby False) Eor s"
  "DoOpcode 0x5a s = op_5a s"
  "DoOpcode 0x5b s = op_5b s"
  "DoOpcode 0x5c s = op_5c s"
  "DoOpcode 0x5d s = via (AdrAbx False) Eor s"
  "DoOpcode 0x5e s = via (AdrAbx True) Lsr s"
  "DoOpcode 0x5f s = via AdrAlx Eor s"
  "DoOpcode 0x60 s = op_60 s"
  "DoOpcode 0x61 s = via AdrIdx Adc s"
  "DoOpcode 0x62 s = op_62 s"
  "DoOpcode 0x63 s = via AdrSr Adc s"
  "DoOpcode 0x64 s = via AdrDp Stz s"
  "DoOpcode 0x65 s = via AdrDp Adc s"
  "DoOpcode 0x66 s = via AdrDp Ror s"
  "DoOpcode 0x67 s = via AdrIdl Adc s"
  "DoOpcode 0x68 s = op_68 s"
  "DoOpcode 0x69 s = via (AdrImm False) Adc s"
  "DoOpcode 0x6a s = op_6a s"
  "DoOpcode 0x6b s = op_6b s"
  "DoOpcode 0x6c s = op_6c s"
  "DoOpcode 0x6d s = via AdrAbs Adc s"
  "DoOpcode 0x6e s = via AdrAbs Ror s"
  "DoOpcode 0x6f s = via AdrAbl Adc s"
  "DoOpcode 0x70 s = DoBranch (m_v s) s"
  "DoOpcode 0x71 s = via (AdrIdy False) Adc s"
  "DoOpcode 0x72 s = via AdrIdp Adc s"
  "DoOpcode 0x73 s = via AdrIsy Adc s"
  "DoOpcode 0x74 s = via AdrDpx Stz s"
  "DoOpcode 0x75 s = via AdrDpx Adc s"
  "DoOpcode 0x76 s = via AdrDpx Ror s"
  "DoOpcode 0x77 s = via AdrIly Adc s"
  "DoOpcode 0x78 s = (AdrImp s)\<lparr>m_i := True\<rparr>"
  "DoOpcode 0x79 s = via (AdrAby False) Adc s"
  "DoOpcode 0x7a s = op_7a s"
  "DoOpcode 0x7b s = op_7b s"
  "DoOpcode 0x7c s = op_7c s"
  "DoOpcode 0x7d s = via (AdrAbx False) Adc s"
  "DoOpcode 0x7e s = via (AdrAbx True) Ror s"
  "DoOpcode 0x7f s = via AdrAlx Adc s"
  "DoOpcode 0x80 s = DoBranch True s"
  "DoOpcode 0x81 s = via AdrIdx Sta s"
  "DoOpcode 0x82 s = op_82 s"
  "DoOpcode 0x83 s = via AdrSr Sta s"
  "DoOpcode 0x84 s = via AdrDp Sty s"
  "DoOpcode 0x85 s = via AdrDp Sta s"
  "DoOpcode 0x86 s = via AdrDp Stx s"
  "DoOpcode 0x87 s = via AdrIdl Sta s"
  "DoOpcode 0x88 s = op_88 s"
  "DoOpcode 0x89 s = op_89 s"
  "DoOpcode 0x8a s = op_8a s"
  "DoOpcode 0x8b s = op_8b s"
  "DoOpcode 0x8c s = via AdrAbs Sty s"
  "DoOpcode 0x8d s = via AdrAbs Sta s"
  "DoOpcode 0x8e s = via AdrAbs Stx s"
  "DoOpcode 0x8f s = via AdrAbl Sta s"
  "DoOpcode 0x90 s = DoBranch (\<not> m_c s) s"
  "DoOpcode 0x91 s = via (AdrIdy True) Sta s"
  "DoOpcode 0x92 s = via AdrIdp Sta s"
  "DoOpcode 0x93 s = via AdrIsy Sta s"
  "DoOpcode 0x94 s = via AdrDpx Sty s"
  "DoOpcode 0x95 s = via AdrDpx Sta s"
  "DoOpcode 0x96 s = via AdrDpy Stx s"
  "DoOpcode 0x97 s = via AdrIly Sta s"
  "DoOpcode 0x98 s = op_98 s"
  "DoOpcode 0x99 s = via (AdrAby True) Sta s"
  "DoOpcode 0x9a s = op_9a s"
  "DoOpcode 0x9b s = op_9b s"
  "DoOpcode 0x9c s = via AdrAbs Stz s"
  "DoOpcode 0x9d s = via (AdrAbx True) Sta s"
  "DoOpcode 0x9e s = via (AdrAbx True) Stz s"
  "DoOpcode 0x9f s = via AdrAlx Sta s"
  "DoOpcode 0xa0 s = via (AdrImm True) Ldy s"
  "DoOpcode 0xa1 s = via AdrIdx Lda s"
  "DoOpcode 0xa2 s = via (AdrImm True) Ldx s"
  "DoOpcode 0xa3 s = via AdrSr Lda s"
  "DoOpcode 0xa4 s = via AdrDp Ldy s"
  "DoOpcode 0xa5 s = via AdrDp Lda s"
  "DoOpcode 0xa6 s = via AdrDp Ldx s"
  "DoOpcode 0xa7 s = via AdrIdl Lda s"
  "DoOpcode 0xa8 s = op_a8 s"
  "DoOpcode 0xa9 s = via (AdrImm False) Lda s"
  "DoOpcode 0xaa s = op_aa s"
  "DoOpcode 0xab s = op_ab s"
  "DoOpcode 0xac s = via AdrAbs Ldy s"
  "DoOpcode 0xad s = via AdrAbs Lda s"
  "DoOpcode 0xae s = via AdrAbs Ldx s"
  "DoOpcode 0xaf s = via AdrAbl Lda s"
  "DoOpcode 0xb0 s = DoBranch (m_c s) s"
  "DoOpcode 0xb1 s = via (AdrIdy False) Lda s"
  "DoOpcode 0xb2 s = via AdrIdp Lda s"
  "DoOpcode 0xb3 s = via AdrIsy Lda s"
  "DoOpcode 0xb4 s = via AdrDpx Ldy s"
  "DoOpcode 0xb5 s = via AdrDpx Lda s"
  "DoOpcode 0xb6 s = via AdrDpy Ldx s"
  "DoOpcode 0xb7 s = via AdrIly Lda s"
  "DoOpcode 0xb8 s = (AdrImp s)\<lparr>m_v := False\<rparr>"
  "DoOpcode 0xb9 s = via (AdrAby False) Lda s"
  "DoOpcode 0xba s = op_ba s"
  "DoOpcode 0xbb s = op_bb s"
  "DoOpcode 0xbc s = via (AdrAbx False) Ldy s"
  "DoOpcode 0xbd s = via (AdrAbx False) Lda s"
  "DoOpcode 0xbe s = via (AdrAby False) Ldx s"
  "DoOpcode 0xbf s = via AdrAlx Lda s"
  "DoOpcode 0xc0 s = via (AdrImm True) Cpy s"
  "DoOpcode 0xc1 s = via AdrIdx Cmp s"
  "DoOpcode 0xc2 s = op_c2 s"
  "DoOpcode 0xc3 s = via AdrSr Cmp s"
  "DoOpcode 0xc4 s = via AdrDp Cpy s"
  "DoOpcode 0xc5 s = via AdrDp Cmp s"
  "DoOpcode 0xc6 s = via AdrDp Dec s"
  "DoOpcode 0xc7 s = via AdrIdl Cmp s"
  "DoOpcode 0xc8 s = op_c8 s"
  "DoOpcode 0xc9 s = via (AdrImm False) Cmp s"
  "DoOpcode 0xca s = op_ca s"
  "DoOpcode 0xcb s = op_cb s"
  "DoOpcode 0xcc s = via AdrAbs Cpy s"
  "DoOpcode 0xcd s = via AdrAbs Cmp s"
  "DoOpcode 0xce s = via AdrAbs Dec s"
  "DoOpcode 0xcf s = via AdrAbl Cmp s"
  "DoOpcode 0xd0 s = DoBranch (\<not> m_z s) s"
  "DoOpcode 0xd1 s = via (AdrIdy False) Cmp s"
  "DoOpcode 0xd2 s = via AdrIdp Cmp s"
  "DoOpcode 0xd3 s = via AdrIsy Cmp s"
  "DoOpcode 0xd4 s = op_d4 s"
  "DoOpcode 0xd5 s = via AdrDpx Cmp s"
  "DoOpcode 0xd6 s = via AdrDpx Dec s"
  "DoOpcode 0xd7 s = via AdrIly Cmp s"
  "DoOpcode 0xd8 s = (AdrImp s)\<lparr>m_d := False\<rparr>"
  "DoOpcode 0xd9 s = via (AdrAby False) Cmp s"
  "DoOpcode 0xda s = op_da s"
  "DoOpcode 0xdb s = op_db s"
  "DoOpcode 0xdc s = op_dc s"
  "DoOpcode 0xdd s = via (AdrAbx False) Cmp s"
  "DoOpcode 0xde s = via (AdrAbx True) Dec s"
  "DoOpcode 0xdf s = via AdrAlx Cmp s"
  "DoOpcode 0xe0 s = via (AdrImm True) Cpx s"
  "DoOpcode 0xe1 s = via AdrIdx Sbc s"
  "DoOpcode 0xe2 s = op_e2 s"
  "DoOpcode 0xe3 s = via AdrSr Sbc s"
  "DoOpcode 0xe4 s = via AdrDp Cpx s"
  "DoOpcode 0xe5 s = via AdrDp Sbc s"
  "DoOpcode 0xe6 s = via AdrDp Inc s"
  "DoOpcode 0xe7 s = via AdrIdl Sbc s"
  "DoOpcode 0xe8 s = op_e8 s"
  "DoOpcode 0xe9 s = via (AdrImm False) Sbc s"
  "DoOpcode 0xea s = op_ea s"
  "DoOpcode 0xeb s = op_eb s"
  "DoOpcode 0xec s = via AdrAbs Cpx s"
  "DoOpcode 0xed s = via AdrAbs Sbc s"
  "DoOpcode 0xee s = via AdrAbs Inc s"
  "DoOpcode 0xef s = via AdrAbl Sbc s"
  "DoOpcode 0xf0 s = DoBranch (m_z s) s"
  "DoOpcode 0xf1 s = via (AdrIdy False) Sbc s"
  "DoOpcode 0xf2 s = via AdrIdp Sbc s"
  "DoOpcode 0xf3 s = via AdrIsy Sbc s"
  "DoOpcode 0xf4 s = op_f4 s"
  "DoOpcode 0xf5 s = via AdrDpx Sbc s"
  "DoOpcode 0xf6 s = via AdrDpx Inc s"
  "DoOpcode 0xf7 s = via AdrIly Sbc s"
  "DoOpcode 0xf8 s = (AdrImp s)\<lparr>m_d := True\<rparr>"
  "DoOpcode 0xf9 s = via (AdrAby False) Sbc s"
  "DoOpcode 0xfa s = op_fa s"
  "DoOpcode 0xfb s = op_fb s"
  "DoOpcode 0xfc s = op_fc s"
  "DoOpcode 0xfd s = via (AdrAbx False) Sbc s"
  "DoOpcode 0xfe s = via (AdrAbx True) Inc s"
  "DoOpcode 0xff s = via AdrAlx Sbc s"
  by (simp_all add: DoOpcode_def)

text \<open>A property of all 256 opcodes is checked row by row.\<close>

lemma lt16:
  "(n::nat) < 16 \<longleftrightarrow> n \<in> {0, 1, 2, 3, 4, 5, 6, 7, 8, 9, 10, 11, 12, 13, 14, 15}"
  by (simp only: insert_iff empty_iff) arith

lemma all_lt16:
  "(\<forall>h<16. Q h) = (\<forall>h\<in>{0, 1, 2, 3, 4, 5, 6, 7, 8, 9, 10, 11, 12, 13, 14, 15::nat}. Q h)"
  unfolding lt16 by blast

lemma byte_split:
  "(\<And>h l. h < 16 \<Longrightarrow> l < 16 \<Longrightarrow> P (of_nat (16 * h + l))) \<Longrightarrow> P (x::8 word)"
proof -
  assume a: "\<And>h l. h < 16 \<Longrightarrow> l < 16 \<Longrightarrow> P (of_nat (16 * h + l))"
  have "unat x < 256" using unsigned_less[of x, where 'a=nat] by simp
  then have "unat x div 16 < 16" "unat x mod 16 < 16" by simp_all
  from a[OF this] show ?thesis by simp
qed

lemma byte_rows:
  assumes "\<forall>l<16. P (of_nat (16 * 0 + l))" "\<forall>l<16. P (of_nat (16 * 1 + l))"
    "\<forall>l<16. P (of_nat (16 * 2 + l))" "\<forall>l<16. P (of_nat (16 * 3 + l))"
    "\<forall>l<16. P (of_nat (16 * 4 + l))" "\<forall>l<16. P (of_nat (16 * 5 + l))"
    "\<forall>l<16. P (of_nat (16 * 6 + l))" "\<forall>l<16. P (of_nat (16 * 7 + l))"
    "\<forall>l<16. P (of_nat (16 * 8 + l))" "\<forall>l<16. P (of_nat (16 * 9 + l))"
    "\<forall>l<16. P (of_nat (16 * 10 + l))" "\<forall>l<16. P (of_nat (16 * 11 + l))"
    "\<forall>l<16. P (of_nat (16 * 12 + l))" "\<forall>l<16. P (of_nat (16 * 13 + l))"
    "\<forall>l<16. P (of_nat (16 * 14 + l))" "\<forall>l<16. P (of_nat (16 * 15 + l))"
  shows "P (x::8 word)"
proof (rule byte_split)
  fix h l :: nat
  assume h: "h < 16" and l: "l < 16"
  from h have "h \<in> {0, 1, 2, 3, 4, 5, 6, 7, 8, 9, 10, 11, 12, 13, 14, 15}"
    by (simp only: lt16)
  then show "P (of_nat (16 * h + l))"
    using assms l by (elim insertE emptyE) (simp_all only:)
qed

section \<open>Emulation mode pins the register widths\<close>

lemma modeInv_by_modes: "modes s' = modes s \<Longrightarrow> modeInv s' = modeInv s"
  by (simp add: modeInv_def modes_def)

lemma modeInv_SetFlags [simp]: "modeInv (SetFlags v s)"
  by (simp add: modeInv_def SetFlags_def Let_def)

lemma modeInv_upd [simp]:
  "modeInv (s\<lparr>host := h\<rparr>) = modeInv s" "modeInv (s\<lparr>trace := t\<rparr>) = modeInv s"
  "modeInv (s\<lparr>m_pc := pc\<rparr>) = modeInv s" "modeInv (s\<lparr>m_k := k\<rparr>) = modeInv s"
  "modeInv (s\<lparr>m_c := b\<rparr>) = modeInv s" "modeInv (s\<lparr>m_i := b\<rparr>) = modeInv s"
  "modeInv (s\<lparr>m_d := b\<rparr>) = modeInv s" "modeInv (s\<lparr>m_v := b\<rparr>) = modeInv s"
  "modeInv (s\<lparr>m_nmiWanted := b\<rparr>) = modeInv s" "modeInv (s\<lparr>m_irqWanted := b\<rparr>) = modeInv s"
  "modeInv (s\<lparr>m_waiting := b\<rparr>) = modeInv s" "modeInv (s\<lparr>m_stopped := b\<rparr>) = modeInv s"
  "modeInv (s\<lparr>m_intWanted := b\<rparr>) = modeInv s" "modeInv (s\<lparr>m_resetWanted := b\<rparr>) = modeInv s"
  "modeInv (s\<lparr>m_sp := sp\<rparr>) = modeInv s"
  by (simp_all add: modeInv_def)

lemma modeInv_blocks [simp]:
  "modeInv (Idle s) = modeInv s"
  "modeInv (IdleWait s) = modeInv s"
  "modeInv (CheckInterrupts s) = modeInv s"
  "modeInv (snd (Read a s)) = modeInv s"
  "modeInv (snd (ReadOpcode s)) = modeInv s"
  "modeInv (snd (PullByte s)) = modeInv s"
  "modeInv (snd (PullWord ic s)) = modeInv s"
  "modeInv (snd (ReadWord lo hi ic s)) = modeInv s"
  "modeInv (AdrImp s) = modeInv s"
  "modeInv (DoBranch c s) = modeInv s"
  "modeInv (DoInterrupt s) = modeInv s"
  "modeInv (op_00 s) = modeInv s"
  "modeInv (op_02 s) = modeInv s"
  "modeInv (op_08 s) = modeInv s"
  "modeInv (op_0a s) = modeInv s"
  "modeInv (op_0b s) = modeInv s"
  "modeInv (op_1a s) = modeInv s"
  "modeInv (op_1b s) = modeInv s"
  "modeInv (op_20 s) = modeInv s"
  "modeInv (op_22 s) = modeInv s"
  "modeInv (op_2a s) = modeInv s"
  "modeInv (op_2b s) = modeInv s"
  "modeInv (op_3a s) = modeInv s"
  "modeInv (op_3b s) = modeInv s"
  "modeInv (op_42 s) = modeInv s"
  "modeInv (op_44 s) = modeInv s"
  "modeInv (op_48 s) = modeInv s"
  "modeInv (op_4a s) = modeInv s"
  "modeInv (op_4b s) = modeInv s"
  "modeInv (op_4c s) = modeInv s"
  "modeInv (op_54 s) = modeInv s"
  "modeInv (op_5a s) = modeInv s"
  "modeInv (op_5b s) = modeInv s"
  "modeInv (op_5c s) = modeInv s"
  "modeInv (op_60 s) = modeInv s"
  "modeInv (op_62 s) = modeInv s"
  "modeInv (op_68 s) = modeInv s"
  "modeInv (op_6a s) = modeInv s"
  "modeInv (op_6b s) = modeInv s"
  "modeInv (op_6c s) = modeInv s"
  "modeInv (op_7a s) = modeInv s"
  "modeInv (op_7b s) = modeInv s"
  "modeInv (op_7c s) = modeInv s"
  "modeInv (op_82 s) = modeInv s"
  "modeInv (op_88 s) = modeInv s"
  "modeInv (op_89 s) = modeInv s"
  "modeInv (op_8a s) = modeInv s"
  "modeInv (op_8b s) = modeInv s"
  "modeInv (op_98 s) = modeInv s"
  "modeInv (op_9a s) = modeInv s"
  "modeInv (op_9b s) = modeInv s"
  "modeInv (op_a8 s) = modeInv s"
  "modeInv (op_aa s) = modeInv s"
  "modeInv (op_ab s) = modeInv s"
  "modeInv (op_ba s) = modeInv s"
  "modeInv (op_bb s) = modeInv s"
  "modeInv (op_c8 s) = modeInv s"
  "modeInv (op_ca s) = modeInv s"
  "modeInv (op_cb s) = modeInv s"
  "modeInv (op_d4 s) = modeInv s"
  "modeInv (op_da s) = modeInv s"
  "modeInv (op_db s) = modeInv s"
  "modeInv (op_dc s) = modeInv s"
  "modeInv (op_e8 s) = modeInv s"
  "modeInv (op_ea s) = modeInv s"
  "modeInv (op_eb s) = modeInv s"
  "modeInv (op_f4 s) = modeInv s"
  "modeInv (op_fa s) = modeInv s"
  "modeInv (op_fc s) = modeInv s"
  by (rule modeInv_by_modes, simp)+

lemma modeInv_via [simp]:
  "(\<And>s. modes (snd (adr s)) = modes s) \<Longrightarrow> (\<And>l h s. modes (op l h s) = modes s) \<Longrightarrow>
   modeInv (via adr op s) = modeInv s"
  using modes_via[of adr op s] by (simp add: modeInv_def modes_def)

lemma modeInv_special [simp]:
  "modeInv (op_28 s)"
  "modeInv (op_40 s)"
  "modeInv (op_c2 s)"
  "modeInv (op_e2 s)"
  "modeInv s \<Longrightarrow> modeInv (op_fb s)"
  apply (simp_all add: op_28_def op_40_def op_c2_def op_e2_def Let_def split_def)
  apply (simp add: op_fb_def modeInv_def Let_def AdrImp_def CheckInterrupts_def Read_def
      Idle_def split_def)
  done

lemma modeInv_rows:
  "modeInv s \<Longrightarrow> \<forall>l<16. modeInv (DoOpcode (of_nat (16 * 0 + l)) s)"
  "modeInv s \<Longrightarrow> \<forall>l<16. modeInv (DoOpcode (of_nat (16 * 1 + l)) s)"
  "modeInv s \<Longrightarrow> \<forall>l<16. modeInv (DoOpcode (of_nat (16 * 2 + l)) s)"
  "modeInv s \<Longrightarrow> \<forall>l<16. modeInv (DoOpcode (of_nat (16 * 3 + l)) s)"
  "modeInv s \<Longrightarrow> \<forall>l<16. modeInv (DoOpcode (of_nat (16 * 4 + l)) s)"
  "modeInv s \<Longrightarrow> \<forall>l<16. modeInv (DoOpcode (of_nat (16 * 5 + l)) s)"
  "modeInv s \<Longrightarrow> \<forall>l<16. modeInv (DoOpcode (of_nat (16 * 6 + l)) s)"
  "modeInv s \<Longrightarrow> \<forall>l<16. modeInv (DoOpcode (of_nat (16 * 7 + l)) s)"
  "modeInv s \<Longrightarrow> \<forall>l<16. modeInv (DoOpcode (of_nat (16 * 8 + l)) s)"
  "modeInv s \<Longrightarrow> \<forall>l<16. modeInv (DoOpcode (of_nat (16 * 9 + l)) s)"
  "modeInv s \<Longrightarrow> \<forall>l<16. modeInv (DoOpcode (of_nat (16 * 10 + l)) s)"
  "modeInv s \<Longrightarrow> \<forall>l<16. modeInv (DoOpcode (of_nat (16 * 11 + l)) s)"
  "modeInv s \<Longrightarrow> \<forall>l<16. modeInv (DoOpcode (of_nat (16 * 12 + l)) s)"
  "modeInv s \<Longrightarrow> \<forall>l<16. modeInv (DoOpcode (of_nat (16 * 13 + l)) s)"
  "modeInv s \<Longrightarrow> \<forall>l<16. modeInv (DoOpcode (of_nat (16 * 14 + l)) s)"
  "modeInv s \<Longrightarrow> \<forall>l<16. modeInv (DoOpcode (of_nat (16 * 15 + l)) s)"
  by (simp_all add: all_lt16 DoOpcode_simps)

lemma modeInv_DoOpcode: "modeInv s \<Longrightarrow> modeInv (DoOpcode opcode s)"
  by (rule byte_rows[where P="\<lambda>opc. modeInv (DoOpcode opc s)"]) (erule modeInv_rows)+

lemma modeInv_Reset: "modeInv s \<Longrightarrow> modeInv (Reset hard s)"
  by (simp add: modeInv_def Reset_def Let_def)

lemma modeInv_RunOpcode: "modeInv s \<Longrightarrow> modeInv (RunOpcode s)"
  by (simp add: RunOpcode_def Let_def split_def modeInv_DoOpcode)

lemma reachable_modeInv: "reachable s \<Longrightarrow> modeInv s"
proof (induction rule: reachable.induct)
  case (created readHandler writeHandler idleHandler h0)
  show ?case by (simp add: Cpu_def Reset_def modeInv_def)
next
  case (after_Reset s hard)
  then show ?case by (simp add: modeInv_Reset)
next
  case (after_RunOpcode s)
  then show ?case by (simp add: modeInv_RunOpcode)
next
  case (after_Nmi s)
  then show ?case by (simp add: Nmi_def)
next
  case (after_SetIrq s state)
  then show ?case by (simp add: SetIrq_def)
qed


section \<open>Interrupt service\<close>

lemma bit_if8: "bit (if c then (a::8 word) else b) n = (if c then bit a n else bit b n)"
  by simp

lemma flags_bit5: "bit (GetFlags s) 5 = m_mf s"
  by (simp add: GetFlags_def bit_or_iff bit_if8 split del: if_split cong: if_cong) simp

lemma pushed_flags_bits:
  "bit (GetFlags s AND 0xEF) 5 = m_mf s" "\<not> bit (GetFlags s AND 0xEF) 4"
  by (simp_all add: bit_and_iff flags_bit5)

lemma GetFlags_frame [simp]:
  "GetFlags (s\<lparr>host := h\<rparr>) = GetFlags s" "GetFlags (s\<lparr>trace := t\<rparr>) = GetFlags s"
  "GetFlags (s\<lparr>m_sp := sp\<rparr>) = GetFlags s" "GetFlags (s\<lparr>m_pc := pc\<rparr>) = GetFlags s"
  "GetFlags (s\<lparr>m_k := k\<rparr>) = GetFlags s" "GetFlags (s\<lparr>m_intWanted := b\<rparr>) = GetFlags s"
  by (simp_all add: GetFlags_def split del: if_split cong: if_cong)

lemma DoInterrupt_emu_trace:
  "m_e s \<Longrightarrow>
   \<exists>a1 pch a2 pcl a3 vl lo vh hi.
     trace (DoInterrupt s) = trace s @ [EvIdle False, EvWrite a1 pch, EvWrite a2 pcl,
        EvWrite a3 (GetFlags s AND 0xEF), EvRead vl lo, EvRead vh hi]"
  by (simp add: DoInterrupt_def bus_defs Let_def split_def cong: let_weak_cong)

text \<open>When the top-level step services an interrupt.\<close>

lemma interrupt_path:
  assumes "\<not> m_resetWanted s" and "\<not> m_stopped s" and "\<not> m_waiting s"
    and "m_nmiWanted s \<or> (m_irqWanted s \<and> \<not> m_i s)"
  shows "RunOpcode s = DoInterrupt (snd (Read (pcAddr s) (CheckInterrupts s)))"
  using assms
  by (simp add: RunOpcode_def CheckInterrupts_def Let_def pcAddr_def cong: let_weak_cong)

lemma reachable_pendingCpu: "reachable pendingCpu"
  unfolding pendingCpu_def bootCpu_def romCpu_def by (intro reachable.intros)

lemma pendingCpu_facts:
  "m_e pendingCpu" "\<not> m_resetWanted pendingCpu" "\<not> m_stopped pendingCpu"
  "\<not> m_waiting pendingCpu" "m_nmiWanted pendingCpu" "m_irqWanted pendingCpu"
  by code_simp+

text \<open>
  Claim C1, as the code has it. Whenever a hardware interrupt (NMI or IRQ) is serviced
  while the core is in emulation mode (E = 1), the interrupt sequence is: a dummy read
  at the program address, an idle cycle, the two bytes of PC pushed, the flag byte
  pushed, the two bytes of the vector read. The flag byte pushed is the flag byte with
  bit 4 (B) cleared: its bit 5 is 1 and its bit 4 is 0.
\<close>

theorem hw_interrupt_flag_byte:
  assumes "reachable s" and "m_e s"
    and "\<not> m_resetWanted s" and "\<not> m_stopped s" and "\<not> m_waiting s"
    and "m_nmiWanted s \<or> (m_irqWanted s \<and> \<not> m_i s)"
  shows "\<exists>v a1 pch a2 pcl a3 f vl lo vh hi.
     trace (RunOpcode s) = trace s @ [EvRead (pcAddr s) v, EvIdle False, EvWrite a1 pch,
        EvWrite a2 pcl, EvWrite a3 f, EvRead vl lo, EvRead vh hi]
     \<and> f = GetFlags s AND 0xEF \<and> bit f 5 \<and> \<not> bit f 4"
proof -
  from assms(1) have "modeInv s" by (rule reachable_modeInv)
  with assms(2) have mf: "m_mf s" by (simp add: modeInv_def)
  define t where "t = snd (Read (pcAddr s) (CheckInterrupts s))"
  have run: "RunOpcode s = DoInterrupt t"
    unfolding t_def using assms(3-6) by (rule interrupt_path)
  have t1: "m_e t" and t2: "GetFlags t = GetFlags s"
    using assms(2)
    by (simp_all add: t_def Read_def CheckInterrupts_def Let_def split_def cong: let_weak_cong)
  obtain v where t3: "trace t = trace s @ [EvRead (pcAddr s) v]"
    by (simp add: t_def Read_def CheckInterrupts_def Let_def split_def pcAddr_def)
  from DoInterrupt_emu_trace[OF t1] obtain a1 pch a2 pcl a3 vl lo vh hi where
    "trace (DoInterrupt t) = trace t @ [EvIdle False, EvWrite a1 pch, EvWrite a2 pcl,
        EvWrite a3 (GetFlags t AND 0xEF), EvRead vl lo, EvRead vh hi]"
    by (elim exE) (rule that)
  with t2 t3 run have
    "trace (RunOpcode s) = trace s @ [EvRead (pcAddr s) v, EvIdle False, EvWrite a1 pch,
        EvWrite a2 pcl, EvWrite a3 (GetFlags s AND 0xEF), EvRead vl lo, EvRead vh hi]"
    by simp
  with mf show ?thesis
    by (rule_tac x=v in exI, rule_tac x=a1 in exI, rule_tac x=pch in exI, rule_tac x=a2 in exI,
        rule_tac x=pcl in exI, rule_tac x=a3 in exI, rule_tac x="GetFlags s AND 0xEF" in exI,
        rule_tac x=vl in exI, rule_tac x=lo in exI, rule_tac x=vh in exI, rule_tac x=hi in exI)
       (simp add: pushed_flags_bits)
qed

theorem hw_interrupt_flag_byte_witness:
  "reachable pendingCpu \<and> m_e pendingCpu \<and> m_nmiWanted pendingCpu \<and>
   (\<exists>v a1 pch a2 pcl a3 f vl lo vh hi.
     trace (RunOpcode pendingCpu) =
       trace pendingCpu @ [EvRead (pcAddr pendingCpu) v, EvIdle False, EvWrite a1 pch,
        EvWrite a2 pcl, EvWrite a3 f, EvRead vl lo, EvRead vh hi]
     \<and> f = GetFlags pendingCpu AND 0xEF \<and> bit f 5 \<and> \<not> bit f 4)"
  by (rule conjI[OF reachable_pendingCpu conjI[OF pendingCpu_facts(1)
        conjI[OF pendingCpu_facts(5)
          hw_interrupt_flag_byte[OF reachable_pendingCpu pendingCpu_facts(1-4)
            disjI1[OF pendingCpu_facts(5)]]]]])

text \<open>
  The claim as the specification states it fails: in emulation mode the NMI sequence
  pushes the flag byte \<open>$24\<close>, whose bit 4 is 0.
\<close>

theorem nmi_pushes_B_clear:
  "m_e pendingCpu \<and>
   lastEvents 5 (trace (RunOpcode pendingCpu)) =
     [EvWrite 0x1FD 0x80, EvWrite 0x1FC 0x00, EvWrite 0x1FB 0x24,
      EvRead 0xFFFA 0, EvRead 0xFFFB 0] \<and>
   \<not> bit (0x24 :: 8 word) 4"
  by code_simp

lemma DoInterrupt_nmi_emu:
  assumes "m_nmiWanted s" and "m_e s"
  shows "\<exists>lo hi.
       lastEvents 2 (trace (DoInterrupt s)) = [EvRead 0xFFFA lo, EvRead 0xFFFB hi]
       \<and> m_pc (DoInterrupt s) = ucast lo OR push_bit 8 (ucast hi)"
    and "\<not> m_nmiWanted (DoInterrupt s)"
    and "m_irqWanted (DoInterrupt s) = m_irqWanted s"
  using assms
  by (simp_all add: DoInterrupt_def bus_defs Let_def split_def lastEvents_def
      cong: let_weak_cong)

lemma DoInterrupt_nmi_native:
  assumes "m_nmiWanted s" and "\<not> m_e s"
  shows "\<exists>lo hi.
       lastEvents 2 (trace (DoInterrupt s)) = [EvRead 0xFFEA lo, EvRead 0xFFEB hi]
       \<and> m_pc (DoInterrupt s) = ucast lo OR push_bit 8 (ucast hi)"
    and "\<not> m_nmiWanted (DoInterrupt s)"
    and "m_irqWanted (DoInterrupt s) = m_irqWanted s"
  using assms
  by (simp_all add: DoInterrupt_def bus_defs Let_def split_def lastEvents_def
      cong: let_weak_cong)

text \<open>
  Claim C9. Whenever an interrupt is serviced while both \<open>nmiWanted\<close> and \<open>irqWanted\<close>
  are pending, the last two bus reads are those of the NMI vector (\<open>$00FFEA/EB\<close> in
  native mode, \<open>$00FFFA/FB\<close> in emulation mode) and PC is the word read there;
  \<open>nmiWanted\<close> is cleared and \<open>irqWanted\<close> is still set, so the IRQ stays pending.
\<close>

theorem nmi_before_irq:
  assumes "m_nmiWanted s" and "m_irqWanted s"
    and "\<not> m_resetWanted s" and "\<not> m_stopped s" and "\<not> m_waiting s"
  shows "(\<exists>lo hi.
       lastEvents 2 (trace (RunOpcode s)) =
         [EvRead (if m_e s then 0xFFFA else 0xFFEA) lo,
          EvRead (if m_e s then 0xFFFB else 0xFFEB) hi]
       \<and> m_pc (RunOpcode s) = ucast lo OR push_bit 8 (ucast hi))
     \<and> \<not> m_nmiWanted (RunOpcode s) \<and> m_irqWanted (RunOpcode s)"
proof -
  define t where "t = snd (Read (pcAddr s) (CheckInterrupts s))"
  have run: "RunOpcode s = DoInterrupt t"
    unfolding t_def using assms(3-5) assms(1) by (intro interrupt_path) simp_all
  have t: "m_nmiWanted t" "m_irqWanted t" "m_e t = m_e s"
    using assms(1,2)
    by (simp_all add: t_def Read_def CheckInterrupts_def Let_def split_def cong: let_weak_cong)
  show ?thesis
  proof (cases "m_e s")
    case True
    with t have e: "m_e t" by simp
    from DoInterrupt_nmi_emu[OF t(1) e] t(2) True show ?thesis
      unfolding run by simp
  next
    case False
    with t have e: "\<not> m_e t" by simp
    from DoInterrupt_nmi_native[OF t(1) e] t(2) False show ?thesis
      unfolding run by simp
  qed
qed

theorem nmi_before_irq_witness:
  "m_nmiWanted pendingCpu \<and> m_irqWanted pendingCpu \<and>
   lastEvents 2 (trace (RunOpcode pendingCpu)) = [EvRead 0xFFFA 0, EvRead 0xFFFB 0] \<and>
   \<not> m_nmiWanted (RunOpcode pendingCpu) \<and> m_irqWanted (RunOpcode pendingCpu)"
  using nmi_before_irq[OF pendingCpu_facts(5) pendingCpu_facts(6) pendingCpu_facts(2)
          pendingCpu_facts(3) pendingCpu_facts(4)]
  by code_simp

section \<open>BIT\<close>

lemma test_bits:
  "((v::8 word) AND 0x80 \<noteq> 0) = bit v 7"
  "((v::8 word) AND 0x40 \<noteq> 0) = bit v 6"
  "((w::16 word) AND 0x8000 \<noteq> 0) = bit w 15"
  "((w::16 word) AND 0x4000 \<noteq> 0) = bit w 14"
  using and_pow2[of v 7] and_pow2[of v 6] and_pow2[of w 15] and_pow2[of w 14]
  by simp_all

lemma ucast8_bits:
  "bit (ucast (v::8 word) :: 16 word) 7 = bit v 7"
  "bit (ucast (v::8 word) :: 16 word) 6 = bit v 6"
  by (simp_all add: bit_ucast_iff)

lemma and_low_byte: "(a::16 word) AND ucast (v::8 word) = (a AND 0xff) AND ucast v"
proof -
  have "(mask 8 :: 16 word) AND ucast v = ucast v"
    by (rule bit_word_eqI) (auto simp: bit_simps dest: bit_imp_le_length)
  moreover have "(mask 8 :: 16 word) = 0xff"
    by (simp add: mask_eq_exp_minus_1)
  ultimately have "(0xff::16 word) AND ucast v = ucast v" by simp
  then show ?thesis by (simp add: and.assoc)
qed

lemma Bit_flags:
  "let s' = Bit low high s;
       operand = (if m_mf s then ucast (operand8 (trace s')) else operand16 (trace s'));
       a = (if m_mf s then m_a s AND 0xff else m_a s)
   in m_z s' = (a AND operand = 0) \<and>
      m_n s' = bit operand (if m_mf s then 7 else 15) \<and>
      m_v s' = bit operand (if m_mf s then 6 else 14)"
  by (cases "m_mf s")
     (simp_all add: Bit_def bus_defs Let_def split_def operand8_def operand16_def test_bits
        ucast8_bits cong: let_weak_cong)

lemma Bit_imm_flags:
  "let s' = op_89 s;
       operand = (if m_mf s then ucast (operand8 (trace s')) else operand16 (trace s'));
       a = (if m_mf s then m_a s AND 0xff else m_a s)
   in m_z s' = (a AND operand = 0) \<and> m_n s' = m_n s \<and> m_v s' = m_v s"
  by (cases "m_mf s")
     (simp_all add: op_89_def bus_defs Let_def split_def operand8_def operand16_def
        and_low_byte[symmetric] cong: let_weak_cong)

lemma adr_frame:
  "m_a (snd (AdrDp s)) = m_a s" "m_mf (snd (AdrDp s)) = m_mf s"
  "m_a (snd (AdrDpx s)) = m_a s" "m_mf (snd (AdrDpx s)) = m_mf s"
  "m_a (snd (AdrAbs s)) = m_a s" "m_mf (snd (AdrAbs s)) = m_mf s"
  "m_a (snd (AdrAbx w s)) = m_a s" "m_mf (snd (AdrAbx w s)) = m_mf s"
  by (simp_all add: AdrDp_def AdrDpx_def AdrAbs_def AdrAbx_def dpIdle_def bus_defs Let_def
      split_def cong: let_weak_cong)

lemma via_Bit:
  assumes "m_a (snd (adr s)) = m_a s" and "m_mf (snd (adr s)) = m_mf s"
  shows "let s' = via adr Bit s;
       operand = (if m_mf s then ucast (operand8 (trace s')) else operand16 (trace s'));
       a = (if m_mf s then m_a s AND 0xff else m_a s)
   in m_z s' = (a AND operand = 0) \<and>
      m_n s' = bit operand (if m_mf s then 7 else 15) \<and>
      m_v s' = bit operand (if m_mf s then 6 else 14)"
  using Bit_flags[of "fst (fst (adr s))" "snd (fst (adr s))" "snd (adr s)"] assms
  by (simp add: via_def split_def Let_def)

text \<open>
  Claim C3, as the code has it. For every execution of a BIT opcode, Z is set iff A AND
  the operand is zero over the current accumulator width. For the memory forms
  (\<open>$24\<close>, \<open>$2C\<close>, \<open>$34\<close>, \<open>$3C\<close>) N and V are copied from bits 7 and 6 of the operand
  in 8-bit mode, from bits 15 and 14 in 16-bit mode. The immediate form (\<open>$89\<close>) leaves
  N and V unchanged.
\<close>

theorem bit_opcode_flags:
  assumes "opcode \<in> {0x24, 0x2c, 0x34, 0x3c, 0x89}"
  shows "let s' = DoOpcode opcode s;
       operand = (if m_mf s then ucast (operand8 (trace s')) else operand16 (trace s'));
       a = (if m_mf s then m_a s AND 0xff else m_a s)
   in m_z s' = (a AND operand = 0) \<and>
      (if opcode = 0x89 then m_n s' = m_n s \<and> m_v s' = m_v s
       else m_n s' = bit operand (if m_mf s then 7 else 15) \<and>
            m_v s' = bit operand (if m_mf s then 6 else 14))"
proof -
  from assms consider "opcode = 0x24" | "opcode = 0x2c" | "opcode = 0x34" | "opcode = 0x3c"
    | "opcode = 0x89" by auto
  then show ?thesis
  proof cases
    case 1 then show ?thesis
      using via_Bit[of AdrDp s] by (simp add: DoOpcode_simps adr_frame)
  next
    case 2 then show ?thesis
      using via_Bit[of AdrAbs s] by (simp add: DoOpcode_simps adr_frame)
  next
    case 3 then show ?thesis
      using via_Bit[of AdrDpx s] by (simp add: DoOpcode_simps adr_frame)
  next
    case 4 then show ?thesis
      using via_Bit[of "AdrAbx False" s] by (simp add: DoOpcode_simps adr_frame)
  next
    case 5 then show ?thesis
      using Bit_imm_flags[of s] by (simp add: DoOpcode_simps)
  qed
qed

lemma bit_abs_is_bit_opcode: "(0x2c :: 8 word) \<in> {0x24, 0x2c, 0x34, 0x3c, 0x89}"
  by simp

theorem bit_opcode_flags_witness:
  "(0x2c :: 8 word) \<in> {0x24, 0x2c, 0x34, 0x3c, 0x89} \<and>
   operand8 (trace (DoOpcode 0x2c (fetched [0x2c, 0x03, 0x80, 0xC0]))) = 0xC0 \<and>
   m_z (DoOpcode 0x2c (fetched [0x2c, 0x03, 0x80, 0xC0])) \<and>
   m_n (DoOpcode 0x2c (fetched [0x2c, 0x03, 0x80, 0xC0])) \<and>
   m_v (DoOpcode 0x2c (fetched [0x2c, 0x03, 0x80, 0xC0]))"
  using bit_opcode_flags[OF bit_abs_is_bit_opcode, of "fetched [0x2c, 0x03, 0x80, 0xC0]"]
  by code_simp

text \<open>
  The claim as the specification states it fails for the immediate form: \<open>BIT #$C0\<close> in
  8-bit mode leaves N and V clear although bits 7 and 6 of the operand are set.
\<close>

theorem bit_immediate_keeps_N_V:
  "m_mf (bootCpu [0x89, 0xC0]) \<and>
   lastEvents 2 (trace (RunOpcode (bootCpu [0x89, 0xC0]))) =
     [EvRead 0x8000 0x89, EvRead 0x8001 0xC0] \<and>
   bit (0xC0 :: 8 word) 7 \<and> bit (0xC0 :: 8 word) 6 \<and>
   \<not> m_n (RunOpcode (bootCpu [0x89, 0xC0])) \<and> \<not> m_v (RunOpcode (bootCpu [0x89, 0xC0]))"
  by code_simp

section \<open>Indirect jumps\<close>

text \<open>
  Claim C8. \<open>JMP ($aaaa)\<close> (\<open>$6C\<close>) reads the two bytes of the pointer address \<open>adr\<close>
  from the instruction stream, then the low byte of the new PC at \<open>adr\<close> and the high
  byte at \<open>adr & $FF00\<close> when the core is in emulation mode and the low byte of \<open>adr\<close>
  is \<open>$FF\<close>, at \<open>adr + 1\<close> otherwise (\<open>adr\<close> is a 16-bit value: \<open>$FFFF + 1\<close> is \<open>$0000\<close>).
\<close>

theorem jmp_indirect_page_wrap:
  "\<exists>a0 a1 lo hi.
     (let adr = (ucast a0 OR push_bit 8 (ucast a1) :: 16 word);
          adr_h = (if m_e s \<and> adr AND 0xff = 0xff then adr AND 0xff00 else adr + 1)
      in trace (DoOpcode 0x6c s) =
           trace s @ [EvRead (pcAddr s) a0, EvRead (pcAddr (s\<lparr>m_pc := m_pc s + 1\<rparr>)) a1,
                      EvRead (ucast adr) lo, EvRead (ucast adr_h) hi]
         \<and> m_pc (DoOpcode 0x6c s) = ucast lo OR push_bit 8 (ucast hi))"
proof -
  have d: "DoOpcode 0x6c s = op_6c s" by (simp add: DoOpcode_simps)
  show ?thesis unfolding d
    by (cases "m_e s")
       (simp_all add: op_6c_def bus_defs Let_def split_def cong: let_weak_cong)
qed

lemma jmp_wrap_run:
  "m_e (fetched [0x6c, 0xff, 0x80])"
  "lastEvents 4 (trace (DoOpcode 0x6c (fetched [0x6c, 0xff, 0x80]))) =
     [EvRead 0x8001 0xFF, EvRead 0x8002 0x80, EvRead 0x80FF 0x00, EvRead 0x8000 0x6C]"
  "m_pc (DoOpcode 0x6c (fetched [0x6c, 0xff, 0x80])) = 0x6C00"
  by code_simp+

theorem jmp_indirect_page_wrap_witness:
  "m_e (fetched [0x6c, 0xff, 0x80]) \<and>
   lastEvents 4 (trace (DoOpcode 0x6c (fetched [0x6c, 0xff, 0x80]))) =
     [EvRead 0x8001 0xFF, EvRead 0x8002 0x80, EvRead 0x80FF 0x00, EvRead 0x8000 0x6C] \<and>
   m_pc (DoOpcode 0x6c (fetched [0x6c, 0xff, 0x80])) = 0x6C00 \<and>
   (\<exists>a0 a1 lo hi.
     (let adr = (ucast a0 OR push_bit 8 (ucast a1) :: 16 word);
          adr_h = (if m_e (fetched [0x6c, 0xff, 0x80]) \<and> adr AND 0xff = 0xff
                   then adr AND 0xff00 else adr + 1)
      in trace (DoOpcode 0x6c (fetched [0x6c, 0xff, 0x80])) =
           trace (fetched [0x6c, 0xff, 0x80]) @
             [EvRead (pcAddr (fetched [0x6c, 0xff, 0x80])) a0,
              EvRead (pcAddr ((fetched [0x6c, 0xff, 0x80])
                        \<lparr>m_pc := m_pc (fetched [0x6c, 0xff, 0x80]) + 1\<rparr>)) a1,
              EvRead (ucast adr) lo, EvRead (ucast adr_h) hi]
         \<and> m_pc (DoOpcode 0x6c (fetched [0x6c, 0xff, 0x80])) =
             ucast lo OR push_bit 8 (ucast hi)))"
  by (rule conjI[OF jmp_wrap_run(1) conjI[OF jmp_wrap_run(2) conjI[OF jmp_wrap_run(3)
        jmp_indirect_page_wrap[of "fetched [0x6c, 0xff, 0x80]"]]]])

text \<open>
  Claim C2 asks that every address given to the callbacks is at most \<open>$FFFFFF\<close>. The
  addressing modes mask their results, \<open>JMP ($aaaa,X)\<close> (\<open>$7C\<close>) does not: run from
  reset, the program \<open>JML $FF8000; LDX #$01; JMP ($FFFF,X)\<close> reaches the jump with
  K = \<open>$FF\<close> and X = 1, and the jump reads its target at \<open>$1000000\<close> and \<open>$1000001\<close>.
\<close>

theorem jmp_abs_x_reads_past_24_bits:
  "m_k (RunOpcode (RunOpcode (RunOpcode (romCpu romJmpX)))) = 0xFF \<and>
   m_x (RunOpcode (RunOpcode (RunOpcode (romCpu romJmpX)))) = 1 \<and>
   lastEvents 6 (trace (RunOpcode (RunOpcode (RunOpcode (RunOpcode (romCpu romJmpX)))))) =
     [EvRead 0xFF8002 0x7C, EvRead 0xFF8003 0xFF, EvRead 0xFF8004 0xFF, EvIdle False,
      EvRead 0x1000000 0, EvRead 0x1000001 0] \<and>
   (0xFFFFFF :: 32 word) < 0x1000000"
  by code_simp

end
